theory Spec2Isabelle
  imports Complex_Main
begin

section \<open>Floating-point values\<close>

text \<open>
  The arrays of the learner hold numpy \<open>float64\<close> values. They are modelled by the
  finite reals together with the three special values \<open>inf\<close>, \<open>-inf\<close> and \<open>nan\<close>.
  Arithmetic on finite values is exact: rounding, overflow to infinity and the sign of
  zero are not modelled. Arithmetic on the special values follows IEEE 754 as numpy
  applies it (a division by zero gives an infinity or \<open>nan\<close> and a warning, never an
  exception).
\<close>

datatype fl = Fin real | PInf | NInf | NaN

fun isnan :: "fl \<Rightarrow> bool" where
  "isnan NaN = True"
| "isnan _ = False"

fun isfinite :: "fl \<Rightarrow> bool" where
  "isfinite (Fin _) = True"
| "isfinite _ = False"

fun fneg :: "fl \<Rightarrow> fl" where
  "fneg (Fin x) = Fin (- x)"
| "fneg PInf = NInf"
| "fneg NInf = PInf"
| "fneg NaN = NaN"

fun fadd :: "fl \<Rightarrow> fl \<Rightarrow> fl" where
  "fadd (Fin x) (Fin y) = Fin (x + y)"
| "fadd (Fin x) PInf = PInf"
| "fadd (Fin x) NInf = NInf"
| "fadd PInf (Fin y) = PInf"
| "fadd NInf (Fin y) = NInf"
| "fadd PInf PInf = PInf"
| "fadd NInf NInf = NInf"
| "fadd PInf NInf = NaN"
| "fadd NInf PInf = NaN"
| "fadd NaN _ = NaN"
| "fadd _ NaN = NaN"

definition fsub :: "fl \<Rightarrow> fl \<Rightarrow> fl" where
  "fsub a b = fadd a (fneg b)"

fun fmul :: "fl \<Rightarrow> fl \<Rightarrow> fl" where
  "fmul (Fin x) (Fin y) = Fin (x * y)"
| "fmul (Fin x) PInf = (if x = 0 then NaN else if 0 < x then PInf else NInf)"
| "fmul (Fin x) NInf = (if x = 0 then NaN else if 0 < x then NInf else PInf)"
| "fmul PInf (Fin y) = (if y = 0 then NaN else if 0 < y then PInf else NInf)"
| "fmul NInf (Fin y) = (if y = 0 then NaN else if 0 < y then NInf else PInf)"
| "fmul PInf PInf = PInf"
| "fmul NInf NInf = PInf"
| "fmul PInf NInf = NInf"
| "fmul NInf PInf = NInf"
| "fmul NaN _ = NaN"
| "fmul _ NaN = NaN"

fun fdiv :: "fl \<Rightarrow> fl \<Rightarrow> fl" where
  "fdiv (Fin x) (Fin y) =
     (if y = 0 then (if x = 0 then NaN else if 0 < x then PInf else NInf)
      else Fin (x / y))"
| "fdiv (Fin x) PInf = Fin 0"
| "fdiv (Fin x) NInf = Fin 0"
| "fdiv PInf (Fin y) = (if 0 \<le> y then PInf else NInf)"
| "fdiv NInf (Fin y) = (if 0 \<le> y then NInf else PInf)"
| "fdiv PInf PInf = NaN"
| "fdiv NInf NInf = NaN"
| "fdiv PInf NInf = NaN"
| "fdiv NInf PInf = NaN"
| "fdiv NaN _ = NaN"
| "fdiv _ NaN = NaN"

fun fsqrt :: "fl \<Rightarrow> fl" where
  "fsqrt (Fin x) = (if x < 0 then NaN else Fin (sqrt x))"
| "fsqrt PInf = PInf"
| "fsqrt NInf = NaN"
| "fsqrt NaN = NaN"

fun fabs :: "fl \<Rightarrow> fl" where
  "fabs (Fin x) = Fin \<bar>x\<bar>"
| "fabs PInf = PInf"
| "fabs NInf = PInf"
| "fabs NaN = NaN"

text \<open>\<open>np.sign\<close>: \<open>-1\<close>, \<open>0\<close> or \<open>1\<close>, and \<open>nan\<close> for \<open>nan\<close>.\<close>

fun fsign :: "fl \<Rightarrow> fl" where
  "fsign (Fin x) = Fin (sgn x)"
| "fsign PInf = Fin 1"
| "fsign NInf = Fin (- 1)"
| "fsign NaN = NaN"

text \<open>The comparison \<open>a < b\<close>: false as soon as one side is \<open>nan\<close>.\<close>

fun flt :: "fl \<Rightarrow> fl \<Rightarrow> bool" where
  "flt (Fin x) (Fin y) = (x < y)"
| "flt (Fin x) PInf = True"
| "flt NInf (Fin y) = True"
| "flt NInf PInf = True"
| "flt _ _ = False"

definition fgt :: "fl \<Rightarrow> fl \<Rightarrow> bool" where
  "fgt a b = flt b a"

text \<open>\<open>a >= b\<close>, used to state bounds; false as soon as one side is \<open>nan\<close>.\<close>

fun fge :: "fl \<Rightarrow> fl \<Rightarrow> bool" where
  "fge NaN _ = False"
| "fge _ NaN = False"
| "fge a b = (\<not> flt a b)"

text \<open>\<open>np.maximum(a, b)\<close> and \<open>np.max([a, b])\<close>: both propagate \<open>nan\<close>.\<close>

fun fmaximum :: "fl \<Rightarrow> fl \<Rightarrow> fl" where
  "fmaximum NaN _ = NaN"
| "fmaximum _ NaN = NaN"
| "fmaximum a b = (if flt a b then b else a)"

section \<open>Arrays\<close>

text \<open>
  A one-dimensional array is a list, a two-dimensional array the list of its rows. The
  functions below compute what numpy computes on arrays of conforming shapes with at
  least one row and one column; numpy's shape errors and broadcasting of other shapes
  are outside the model, and the theorems state the shapes they are about.
\<close>

type_synonym vec = "fl list"
type_synonym matrix = "fl list list"

definition fsum :: "vec \<Rightarrow> fl" where
  "fsum xs = foldr fadd xs (Fin 0)"

definition mean_v :: "vec \<Rightarrow> fl" where
  "mean_v xs = fdiv (fsum xs) (Fin (real (length xs)))"

text \<open>\<open>np.mean(A)\<close> over all entries, \<open>A.mean(1)\<close> and \<open>np.sum(A, 1)\<close> along each row.\<close>

definition mean_all :: "matrix \<Rightarrow> fl" where
  "mean_all A = mean_v (concat A)"

definition mean_axis1 :: "matrix \<Rightarrow> vec" where
  "mean_axis1 A = map mean_v A"

definition sum_axis1 :: "matrix \<Rightarrow> vec" where
  "sum_axis1 A = map fsum A"

definition ncols :: "'a list list \<Rightarrow> nat" where
  "ncols A = (case A of [] \<Rightarrow> 0 | r # _ \<Rightarrow> length r)"

text \<open>\<open>A.T\<close>\<close>

definition mT :: "matrix \<Rightarrow> matrix" where
  "mT A = map (\<lambda>j. map (\<lambda>r. r ! j) A) [0..<ncols A]"

definition dotv :: "vec \<Rightarrow> vec \<Rightarrow> fl" where
  "dotv x y = fsum (map2 fmul x y)"

text \<open>\<open>np.dot(A, B)\<close>, also written \<open>A.dot(B)\<close>\<close>

definition dot :: "matrix \<Rightarrow> matrix \<Rightarrow> matrix" where
  "dot A B = map (\<lambda>r. map (dotv r) (mT B)) A"

text \<open>Elementwise \<open>A + B\<close>, \<open>A - B\<close>, \<open>A * B\<close>, the scalar multiple \<open>a * A\<close> and \<open>A ** 2\<close>.\<close>

definition madd :: "matrix \<Rightarrow> matrix \<Rightarrow> matrix" where
  "madd A B = map2 (map2 fadd) A B"

definition msub :: "matrix \<Rightarrow> matrix \<Rightarrow> matrix" where
  "msub A B = map2 (map2 fsub) A B"

definition mmul :: "matrix \<Rightarrow> matrix \<Rightarrow> matrix" where
  "mmul A B = map2 (map2 fmul) A B"

definition smul :: "fl \<Rightarrow> matrix \<Rightarrow> matrix" where
  "smul a A = map (map (fmul a)) A"

definition msq :: "matrix \<Rightarrow> matrix" where
  "msq A = map (map (\<lambda>x. fmul x x)) A"

text \<open>\<open>np.diag(v)\<close> of a one-dimensional \<open>v\<close>, \<open>np.eye(n)\<close> and \<open>np.zeros((r, c))\<close>\<close>

definition diag :: "vec \<Rightarrow> matrix" where
  "diag v = map (\<lambda>i. map (\<lambda>j. if i = j then v ! i else Fin 0) [0..<length v]) [0..<length v]"

definition eye :: "nat \<Rightarrow> matrix" where
  "eye n = map (\<lambda>i. map (\<lambda>j. if i = j then Fin 1 else Fin 0) [0..<n]) [0..<n]"

definition zeros :: "nat \<Rightarrow> nat \<Rightarrow> matrix" where
  "zeros r c = replicate r (replicate c (Fin 0))"

text \<open>
  An array attribute that the code leaves one- or two-dimensional
  (\<open>corrmatrix_ave\<close>).
\<close>

datatype ndarray = Arr1 vec | Arr2 matrix

section \<open>The learner\<close>

text \<open>
  The attributes of a \<open>DictLearner\<close> that its methods read or write. The stimulus set
  \<open>stims\<close> is an object of the module \<open>StimSet\<close>, which is not part of the sources:
  the batches it supplies are arguments of the functions below.
\<close>

record dict_learner =
  nunits :: nat
  batch_size :: nat
  learnrate :: fl
  paramfile :: "string option"
  theta :: fl
  moving_avg_rate :: fl
  Q :: matrix
  fastmode :: bool
  corrmatrix_ave :: ndarray
  L0hist :: vec
  L1hist :: vec
  L2hist :: vec
  L0acts :: vec
  L1acts :: vec
  L2acts :: vec
  errorhist :: vec
  meanacts :: vec

text \<open>An \<open>LCALearner\<close> is a \<open>DictLearner\<close> with the parameters of the inference.\<close>

record lca_learner = dict_learner +
  infrate :: fl
  niter :: nat
  min_thresh :: fl
  adapt :: fl
  softthresh :: bool
  tolerance :: fl
  max_iter :: "int option"
  gpu :: bool

subsection \<open>\<open>DictLearner.learn\<close>\<close>

text \<open>
  The dictionary after the gradient step and the orthogonality term, before the rows are
  normalised (lines 112 to 117), with the residual \<open>R\<close>.
\<close>

definition learn_update :: "'a dict_learner_scheme \<Rightarrow> matrix \<Rightarrow> matrix \<Rightarrow> matrix \<times> matrix" where
  "learn_update self data coeffs =
     (let R = msub (mT data) (dot (mT coeffs) (Q self));
          Q1 = madd (Q self) (smul (learnrate self) (dot coeffs R));
          Q2 = (if theta self \<noteq> Fin 0
                then madd Q1 (smul (theta self) (msub Q1 (dot Q1 (dot (mT Q1) Q1))))
                else Q1)
      in (Q2, R))"

text \<open>
  Lines 120 and 121: \<open>normmatrix = np.diag(1./np.sqrt(np.sum(Q*Q,1)))\<close>, then
  \<open>normmatrix.dot(Q)\<close>.
\<close>

definition normmatrix :: "matrix \<Rightarrow> matrix" where
  "normmatrix A = diag (map (\<lambda>x. fdiv (Fin 1) (fsqrt x)) (sum_axis1 (mmul A A)))"

definition learn :: "'a dict_learner_scheme \<Rightarrow> matrix \<Rightarrow> matrix \<Rightarrow> bool \<Rightarrow> 'a dict_learner_scheme \<times> fl" where
  "learn self data coeffs do_normalize =
     (let (Q2, R) = learn_update self data coeffs;
          Q3 = (if do_normalize then dot (normmatrix Q2) Q2 else Q2)
      in (self\<lparr>Q := Q3\<rparr>, mean_all (msq R)))"

text \<open>The Euclidean norm of a row.\<close>

definition row_norm :: "vec \<Rightarrow> fl" where
  "row_norm r = fsqrt (fsum (map (\<lambda>x. fmul x x) r))"

subsection \<open>Shapes and finite entries\<close>

text \<open>
  \<open>fmat n m A\<close>: \<open>A\<close> is an array of shape \<open>(n, m)\<close> whose entries are all finite.
  \<open>rl\<close> reads the value of a finite entry.
\<close>

definition fmat :: "nat \<Rightarrow> nat \<Rightarrow> matrix \<Rightarrow> bool" where
  "fmat n m A = (length A = n \<and> list_all (\<lambda>r. length r = m \<and> list_all isfinite r) A)"

fun rl :: "fl \<Rightarrow> real" where
  "rl (Fin x) = x"
| "rl _ = 0"

text \<open>
  \<open>sq_safe x\<close>: \<open>x\<close> is zero, or finite with a magnitude between \<open>2^-500\<close> and
  \<open>2^500\<close>. The square of such a \<open>float64\<close> value neither overflows nor underflows,
  nor does a sum of up to \<open>2^20\<close> such squares.
\<close>

fun sq_safe :: "fl \<Rightarrow> bool" where
  "sq_safe (Fin x) = (x = 0 \<or> (1 / 2 ^ 500 \<le> \<bar>x\<bar> \<and> \<bar>x\<bar> \<le> 2 ^ 500))"
| "sq_safe _ = False"

subsection \<open>Example learners\<close>

text \<open>
  Two units over two-dimensional stimuli, with the identity as dictionary. The first
  has learning rate \<open>1/2\<close> and \<open>theta = 1\<close>, the second learning rate \<open>1\<close> and
  \<open>theta = 0\<close>.
\<close>

definition ex_learner :: dict_learner where
  "ex_learner = \<lparr> nunits = 2, batch_size = 1, learnrate = Fin (1/2), paramfile = None,
     theta = Fin 1, moving_avg_rate = Fin (1/1000), Q = [[Fin 1, Fin 0], [Fin 0, Fin 1]],
     fastmode = False, corrmatrix_ave = Arr2 (zeros 2 2), L0hist = [], L1hist = [], L2hist = [],
     L0acts = [Fin 0, Fin 0], L1acts = [Fin 0, Fin 0], L2acts = [Fin 0, Fin 0],
     errorhist = [], meanacts = [Fin 0, Fin 0] \<rparr>"

definition ex_learner0 :: dict_learner where
  "ex_learner0 = ex_learner \<lparr> learnrate := Fin 1, theta := Fin 0 \<rparr>"

section \<open>Exceptions\<close>

text \<open>
  The exceptions that the modelled code raises, each with the class Python gives it.
  A function that can raise returns \<open>py_error + 'a\<close>, with \<open>Inl\<close> for the exception.
\<close>

datatype exc_class = ValueError | TypeError | NotImplementedError | IndexError

datatype py_error =
    Blew_up nat
  | Need_filename
  | Zero_size_max
  | Concat_None
  | Not_implemented
  | Index_error

text \<open>
  \<open>Blew_up kk\<close> is \<open>ValueError("Internal variable blew up at iteration " + str(kk))\<close>,
  \<open>Need_filename\<close> is \<open>ValueError("You need to input a filename.")\<close>,
  \<open>Zero_size_max\<close> the \<open>ValueError\<close> of \<open>np.max\<close> on an array without elements,
  \<open>Concat_None\<close> the \<open>TypeError\<close> of \<open>"Saving progress to " + None\<close>,
  \<open>Not_implemented\<close> is \<open>NotImplementedError\<close>, and \<open>Index_error\<close> the
  \<open>IndexError\<close> of an index out of bounds or of too many indices.
\<close>

fun class_of :: "py_error \<Rightarrow> exc_class" where
  "class_of (Blew_up _) = ValueError"
| "class_of Need_filename = ValueError"
| "class_of Zero_size_max = ValueError"
| "class_of Concat_None = TypeError"
| "class_of Not_implemented = NotImplementedError"
| "class_of Index_error = IndexError"

text \<open>Sequencing: the first exception ends the computation.\<close>

definition bind_err :: "py_error + 'a \<Rightarrow> ('a \<Rightarrow> py_error + 'b) \<Rightarrow> py_error + 'b" where
  "bind_err m f = (case m of Inl e \<Rightarrow> Inl e | Inr x \<Rightarrow> f x)"

subsection \<open>\<open>adjust_rates\<close>\<close>

text \<open>\<open>DictLearner.adjust_rates\<close> (lines 208 to 211).\<close>

definition adjust_rates :: "'a dict_learner_scheme \<Rightarrow> fl \<Rightarrow> 'a dict_learner_scheme" where
  "adjust_rates self factor =
     (let self1 = self\<lparr>learnrate := fmul factor (learnrate self)\<rparr>
      in self1\<lparr>theta := fmul factor (theta self1)\<rparr>)"

text \<open>
  \<open>LCALearner.adjust_rates\<close> (lines 184 to 187), which overrides it: the line for
  \<open>infrate\<close> is a comment, and there is none for \<open>theta\<close>.
\<close>

definition lca_adjust_rates :: "'a lca_learner_scheme \<Rightarrow> fl \<Rightarrow> 'a lca_learner_scheme" where
  "lca_adjust_rates self factor = self\<lparr>learnrate := fmul factor (learnrate self)\<rparr>"

subsection \<open>\<open>DictLearner.sort\<close>\<close>

text \<open>
  \<open>a[idx]\<close> for an array of indices \<open>idx\<close>: the entries (of a two-dimensional array,
  the rows) at these positions. The index arrays of the code come from \<open>np.argsort\<close>
  and hold natural numbers.
\<close>

definition take_idx :: "'a list \<Rightarrow> nat list \<Rightarrow> py_error + 'a list" where
  "take_idx xs idx =
     (if list_all (\<lambda>i. i < length xs) idx then Inr (map (\<lambda>i. xs ! i) idx)
      else Inl Index_error)"

text \<open>
  \<open>a[rows, cols]\<close> for two arrays of indices of the same length: numpy pairs them up and
  returns the one-dimensional array of the entries \<open>a[rows[k], cols[k]]\<close>. A
  one-dimensional \<open>a\<close> has too many indices.
\<close>

definition index2 :: "ndarray \<Rightarrow> nat list \<Rightarrow> nat list \<Rightarrow> py_error + ndarray" where
  "index2 a rows cols =
     (case a of
        Arr1 v \<Rightarrow> Inl Index_error
      | Arr2 M \<Rightarrow>
          if list_all (\<lambda>i. i < length M) rows \<and> list_all (\<lambda>j. j < ncols M) cols
          then Inr (Arr1 (map2 (\<lambda>i j. M ! i ! j) rows cols))
          else Inl Index_error)"

text \<open>\<open>a.shape\<close>\<close>

fun shape :: "ndarray \<Rightarrow> nat list" where
  "shape (Arr1 v) = [length v]"
| "shape (Arr2 M) = [length M, ncols M]"

text \<open>
  \<open>DictLearner.sort\<close> (lines 258 to 264) with \<open>plot=False\<close>; \<open>usages\<close> is read by the
  plot only.
\<close>

definition sort_method ::
  "'a dict_learner_scheme \<Rightarrow> vec \<Rightarrow> nat list \<Rightarrow> py_error + 'a dict_learner_scheme" where
  "sort_method self usages sorter =
     bind_err (take_idx (Q self) sorter) (\<lambda>q.
     bind_err (take_idx (L0acts self) sorter) (\<lambda>l0.
     bind_err (take_idx (L1acts self) sorter) (\<lambda>l1.
     bind_err (take_idx (L2acts self) sorter) (\<lambda>l2.
     bind_err (take_idx (meanacts self) sorter) (\<lambda>ma.
     bind_err (index2 (corrmatrix_ave self) sorter sorter) (\<lambda>cm.
     Inr (self\<lparr>Q := q, L0acts := l0, L1acts := l1, L2acts := l2, meanacts := ma,
               corrmatrix_ave := cm\<rparr>)))))))"

text \<open>A permutation of the positions \<open>0, \<dots>, n - 1\<close>, as \<open>np.argsort\<close> returns.\<close>

definition is_perm :: "nat \<Rightarrow> nat list \<Rightarrow> bool" where
  "is_perm n idx = (length idx = n \<and> distinct idx \<and> list_all (\<lambda>i. i < n) idx)"

text \<open>A learner with statistics: unit \<open>0\<close> is used more than unit \<open>1\<close>.\<close>

definition ex_stats :: dict_learner where
  "ex_stats = ex_learner \<lparr> corrmatrix_ave := Arr2 [[Fin 1, Fin 2], [Fin 3, Fin 4]],
     L0acts := [Fin (1/2), Fin (1/4)], L1acts := [Fin 2, Fin 1], L2acts := [Fin 5, Fin 3],
     meanacts := [Fin 1, Fin (- 1)] \<rparr>"

text \<open>An \<open>LCALearner\<close> with the default parameters of the constructor.\<close>

definition ex_lca :: lca_learner where
  "ex_lca = dict_learner.extend (ex_stats \<lparr> learnrate := Fin (1/100), theta := Fin (22/1000) \<rparr>)
     (lca_learner.fields (Fin (3/1000)) 300 (Fin (4/10)) (Fin (95/100)) False (Fin (1/100))
        (Some 4) False)"

section \<open>Inference\<close>

subsection \<open>\<open>LCALearner.infer_cpu\<close>\<close>

text \<open>
  Python's \<open>a or b\<close> for an optional number: \<open>None\<close> and zero are false.
\<close>

definition py_or_fl :: "fl option \<Rightarrow> fl \<Rightarrow> fl" where
  "py_or_fl a d = (case a of None \<Rightarrow> d | Some v \<Rightarrow> if v = Fin 0 then d else v)"

definition py_or_int :: "int option \<Rightarrow> int option \<Rightarrow> int option" where
  "py_or_int a d = (case a of None \<Rightarrow> d | Some v \<Rightarrow> if v = 0 then d else Some v)"

definition py_or_nat :: "nat option \<Rightarrow> nat \<Rightarrow> nat" where
  "py_or_nat a d = (case a of None \<Rightarrow> d | Some v \<Rightarrow> if v = 0 then d else v)"

text \<open>
  The local variables \<open>u\<close>, \<open>s\<close> and \<open>thresh\<close> of \<open>infer_cpu\<close>. The buffer \<open>ci\<close> is
  overwritten at the start of every iteration and is not part of the state. The model
  is of calls with \<open>infplots=False\<close>: the other case records each iteration in arrays
  of its own and plots them.
\<close>

record inf_state =
  inf_u :: matrix
  inf_s :: matrix
  inf_thresh :: vec

text \<open>
  Line 106, \<open>c = Q.dot(Q.T) - np.eye(ndict)\<close>, and line 109, \<open>b = (Q.dot(X)).T\<close>.
\<close>

definition overlap_c :: "'a lca_learner_scheme \<Rightarrow> matrix" where
  "overlap_c self = msub (dot (Q self) (mT (Q self))) (eye (length (Q self)))"

definition overlap_b :: "'a lca_learner_scheme \<Rightarrow> matrix \<Rightarrow> matrix" where
  "overlap_b self X = mT (dot (Q self) X)"

text \<open>
  Lines 112 and 113, the initial thresholds computed from \<open>b\<close>:
  \<open>thresh = np.absolute(b).mean(1)\<close>, then \<open>np.max([thr, self.min_thresh])\<close> for each
  \<open>thr\<close> of it.
\<close>

definition b_thresh :: "'a lca_learner_scheme \<Rightarrow> matrix \<Rightarrow> vec" where
  "b_thresh self b = map (\<lambda>thr. fmaximum thr (min_thresh self)) (mean_axis1 (map (map fabs) b))"

definition init_thresh :: "'a lca_learner_scheme \<Rightarrow> matrix \<Rightarrow> vec" where
  "init_thresh self X = b_thresh self (overlap_b self X)"

definition init_state :: "'a lca_learner_scheme \<Rightarrow> matrix \<Rightarrow> inf_state" where
  "init_state self X =
     \<lparr> inf_u = zeros (ncols X) (length (Q self)), inf_s = zeros (ncols X) (length (Q self)),
       inf_thresh = init_thresh self X \<rparr>"

text \<open>Lines 126 and 127: the new \<open>u\<close>.\<close>

definition u_update :: "'a lca_learner_scheme \<Rightarrow> matrix \<Rightarrow> matrix \<Rightarrow> inf_state \<Rightarrow> matrix" where
  "u_update self b c st =
     (let ci = dot (inf_s st) c
      in madd (smul (infrate self) (msub b ci)) (smul (fsub (Fin 1) (infrate self)) (inf_u st)))"

text \<open>
  Lines 130 to 134 on one entry \<open>x\<close> of \<open>u\<close> with the threshold \<open>th\<close> of its stimulus:
  \<open>np.sign(u)*np.maximum(0., np.absolute(u) - thresh)\<close>, or \<open>u\<close> with the entries where
  \<open>np.absolute(s) < thresh\<close> set to zero.
\<close>

definition soft_threshold :: "fl \<Rightarrow> fl \<Rightarrow> fl" where
  "soft_threshold x th = fmul (fsign x) (fmaximum (Fin 0) (fsub (fabs x) th))"

definition hard_threshold :: "fl \<Rightarrow> fl \<Rightarrow> fl" where
  "hard_threshold x th = (if flt (fabs x) th then Fin 0 else x)"

definition apply_thresh :: "bool \<Rightarrow> matrix \<Rightarrow> vec \<Rightarrow> matrix" where
  "apply_thresh soft um th =
     map2 (\<lambda>row t. map (\<lambda>x. if soft then soft_threshold x t else hard_threshold x t) row) um th"

text \<open>Lines 142 and 143: the thresholds decay and are set to the floor where below it.\<close>

definition adapt_thresh :: "'a lca_learner_scheme \<Rightarrow> vec \<Rightarrow> vec" where
  "adapt_thresh self th =
     map (\<lambda>t. let t' = fmul (adapt self) t
              in if flt t' (min_thresh self) then min_thresh self else t') th"

text \<open>
  One inner iteration \<open>kk\<close> (lines 125 to 143). \<open>np.max\<close> of the test for \<open>nan\<close> raises on
  an array without elements.
\<close>

definition lca_step ::
  "'a lca_learner_scheme \<Rightarrow> matrix \<Rightarrow> matrix \<Rightarrow> nat \<Rightarrow> inf_state \<Rightarrow> py_error + inf_state" where
  "lca_step self b c kk st =
     (let u' = u_update self b c st
      in if concat u' = [] then Inl Zero_size_max
         else if list_ex isnan (concat u') then Inl (Blew_up kk)
         else Inr \<lparr> inf_u = u',
                    inf_s = apply_thresh (softthresh self) u' (inf_thresh st),
                    inf_thresh = adapt_thresh self (inf_thresh st) \<rparr>)"

text \<open>The loop \<open>for kk in range(self.niter)\<close>, over the list of its indices.\<close>

fun inner_loop ::
  "'a lca_learner_scheme \<Rightarrow> matrix \<Rightarrow> matrix \<Rightarrow> nat list \<Rightarrow> inf_state \<Rightarrow> py_error + inf_state" where
  "inner_loop self b c [] st = Inr st"
| "inner_loop self b c (kk # kks) st =
     (case lca_step self b c kk st of
        Inl e \<Rightarrow> Inl e
      | Inr st' \<Rightarrow> inner_loop self b c kks st')"

definition block :: "'a lca_learner_scheme \<Rightarrow> matrix \<Rightarrow> matrix \<Rightarrow> inf_state \<Rightarrow> py_error + inf_state" where
  "block self b c st = inner_loop self b c [0..<niter self] st"

text \<open>Line 145: \<open>np.mean((X.T - s.dot(self.Q))**2)\<close>.\<close>

definition mse :: "'a lca_learner_scheme \<Rightarrow> matrix \<Rightarrow> inf_state \<Rightarrow> fl" where
  "mse self X st = mean_all (msq (msub (mT X) (dot (inf_s st) (Q self))))"

text \<open>The condition of the \<open>while\<close> loop (line 123).\<close>

definition continue_cond :: "fl \<Rightarrow> int option \<Rightarrow> fl \<Rightarrow> int \<Rightarrow> bool" where
  "continue_cond tol cap err outer_k =
     (fgt err tol \<and> (case cap of None \<Rightarrow> True | Some m \<Rightarrow> outer_k < m))"

text \<open>
  The \<open>while\<close> loop (lines 123 to 146). Nothing bounds its iterations when \<open>max_iter\<close>
  is \<open>None\<close>, so the model takes fuel, one unit for each block of inner iterations, and
  returns \<open>None\<close> when the fuel does not suffice.
\<close>

fun outer_loop ::
  "nat \<Rightarrow> 'a lca_learner_scheme \<Rightarrow> matrix \<Rightarrow> matrix \<Rightarrow> matrix \<Rightarrow> fl \<Rightarrow> int option \<Rightarrow>
     fl \<Rightarrow> int \<Rightarrow> inf_state \<Rightarrow> (py_error + inf_state) option" where
  "outer_loop fuel self X b c tol cap err outer_k st =
     (if \<not> continue_cond tol cap err outer_k then Some (Inr st)
      else case fuel of
        0 \<Rightarrow> None
      | Suc fuel' \<Rightarrow>
          (case block self b c st of
             Inl e \<Rightarrow> Some (Inl e)
           | Inr st' \<Rightarrow> outer_loop fuel' self X b c tol cap (mse self X st') (outer_k + 1) st'))"

text \<open>\<open>infer_cpu(X, infplots=False, tolerance, max_iter)\<close>; it returns \<open>s.T, u.T, thresh\<close>.\<close>

definition infer_cpu ::
  "nat \<Rightarrow> 'a lca_learner_scheme \<Rightarrow> matrix \<Rightarrow> fl option \<Rightarrow> int option \<Rightarrow>
     (py_error + matrix \<times> matrix \<times> vec) option" where
  "infer_cpu fuel self X tolerance_arg max_iter_arg =
     (let tol = py_or_fl tolerance_arg (tolerance self);
          cap = py_or_int max_iter_arg (max_iter self)
      in case outer_loop fuel self X (overlap_b self X) (overlap_c self) tol cap
                (fadd tol (Fin 1)) 0 (init_state self X) of
           None \<Rightarrow> None
         | Some (Inl e) \<Rightarrow> Some (Inl e)
         | Some (Inr st) \<Rightarrow> Some (Inr (mT (inf_s st), mT (inf_u st), inf_thresh st)))"

subsection \<open>Example inference calls\<close>

text \<open>
  \<open>ex_lca2\<close> runs one block of two iterations. \<open>ex_nocap\<close> has no cap on the blocks
  and a threshold floor that no unit reaches. \<open>ex_one\<close> has a single unit over
  one-dimensional stimuli and blocks of one iteration; \<open>ex_two\<close> is the same with
  blocks of two iterations, \<open>ex_unit\<close> the same with inference rate \<open>1\<close>.
  \<open>ex_dyadic\<close> has no cap either, blocks of one iteration, and parameters that are
  powers of two (inference rate \<open>1\<close>, floor \<open>1/4\<close>, adaptation \<open>1/2\<close>, tolerance
  \<open>1/64\<close>): on the stimulus \<open>ex_X\<close> every value of its inference is a multiple of
  \<open>1/64\<close>, which \<open>float64\<close> computes without rounding.
\<close>

definition ex_lca2 :: lca_learner where
  "ex_lca2 = ex_lca \<lparr> niter := 2, max_iter := Some 1 \<rparr>"

definition ex_X :: matrix where
  "ex_X = [[Fin 1], [Fin (1/2)]]"

definition ex_nocap :: lca_learner where
  "ex_nocap = ex_lca \<lparr> niter := 1, min_thresh := Fin 10, max_iter := None \<rparr>"

definition ex_one :: lca_learner where
  "ex_one = ex_lca \<lparr> nunits := 1, Q := [[Fin 1]], corrmatrix_ave := Arr2 [[Fin 0]],
     L0acts := [Fin 0], L1acts := [Fin 0], L2acts := [Fin 0], meanacts := [Fin 0],
     infrate := Fin (1/2), niter := 1 \<rparr>"

definition ex_two :: lca_learner where
  "ex_two = ex_one \<lparr> niter := 2 \<rparr>"

definition ex_unit :: lca_learner where
  "ex_unit = ex_one \<lparr> infrate := Fin 1 \<rparr>"

definition ex_dyadic :: lca_learner where
  "ex_dyadic = ex_lca \<lparr> infrate := Fin 1, niter := 1, min_thresh := Fin (1/4),
     adapt := Fin (1/2), tolerance := Fin (1/64), max_iter := None \<rparr>"

subsection \<open>\<open>LCALearner.infer\<close>\<close>

text \<open>
  \<open>infer\<close> (lines 281 to 286) calls \<open>infer_gpu\<close> on the transposed batch when the
  learner's \<open>gpu\<close> is set. The kernels of \<open>infer_gpu\<close> run on the CUDA device through
  \<open>numbapro\<close>; what they return is the parameter \<open>infer_gpu\<close> here. The loop of
  \<open>infer_gpu\<close> is bounded, so that path always returns.
\<close>

definition infer ::
  "('a lca_learner_scheme \<Rightarrow> matrix \<Rightarrow> py_error + matrix \<times> matrix \<times> vec) \<Rightarrow> nat \<Rightarrow>
     'a lca_learner_scheme \<Rightarrow> matrix \<Rightarrow> fl option \<Rightarrow> int option \<Rightarrow>
     (py_error + matrix \<times> matrix \<times> vec) option" where
  "infer infer_gpu fuel self X tolerance_arg max_iter_arg =
     (if gpu self then Some (infer_gpu self (mT X))
      else infer_cpu fuel self X tolerance_arg max_iter_arg)"

section \<open>Statistics, checkpoints and the trial loop\<close>

subsection \<open>\<open>DictLearner.store_statistics\<close>\<close>

text \<open>
  \<open>(1 - r)*old + r*new\<close> on vectors; \<open>x != 0\<close> as the number that \<open>np.mean\<close> averages;
  \<open>(1 - r)*a + r*M\<close> for the correlation matrix, where a one-dimensional \<open>a\<close> is
  broadcast along the rows of \<open>M\<close>; and \<open>M / n\<close>.
\<close>

definition moving_avg :: "fl \<Rightarrow> vec \<Rightarrow> vec \<Rightarrow> vec" where
  "moving_avg r old new = map2 fadd (map (fmul (fsub (Fin 1) r)) old) (map (fmul r) new)"

definition ne0 :: "fl \<Rightarrow> fl" where
  "ne0 x = (if x \<noteq> Fin 0 then Fin 1 else Fin 0)"

definition nd_moving_avg :: "fl \<Rightarrow> ndarray \<Rightarrow> matrix \<Rightarrow> ndarray" where
  "nd_moving_avg r a M =
     (case a of
        Arr2 A \<Rightarrow> Arr2 (madd (smul (fsub (Fin 1) r) A) (smul r M))
      | Arr1 v \<Rightarrow> Arr2 (map (\<lambda>row. map2 fadd (map (fmul (fsub (Fin 1) r)) v) row) (smul r M)))"

definition mdiv :: "matrix \<Rightarrow> fl \<Rightarrow> matrix" where
  "mdiv A n = map (map (\<lambda>x. fdiv x n)) A"

text \<open>Lines 149 to 173. The value it returns is not used by the trial loop.\<close>

definition store_statistics ::
  "'a dict_learner_scheme \<Rightarrow> matrix \<Rightarrow> fl \<Rightarrow> nat option \<Rightarrow> bool \<Rightarrow> 'a dict_learner_scheme" where
  "store_statistics self acts thiserror batch_size_arg center_corr =
     (let bs = py_or_nat batch_size_arg (batch_size self);
          r = moving_avg_rate self;
          means = mean_axis1 acts;
          self1 = self\<lparr>
            L2acts := moving_avg r (L2acts self) (mean_axis1 (msq acts)),
            L1acts := moving_avg r (L1acts self) (mean_axis1 (map (map fabs) acts)),
            L0acts := moving_avg r (L0acts self) (mean_axis1 (map (map ne0) acts)),
            meanacts := moving_avg r (meanacts self) means,
            errorhist := errorhist self @ [thiserror],
            L0hist := L0hist self @ [mean_all (map (map ne0) acts)],
            L1hist := L1hist self @ [mean_all (map (map fabs) acts)],
            L2hist := L2hist self @ [mean_all (msq acts)]\<rparr>
      in if fastmode self then self1
         else
           (let corrmatrix =
                  (if center_corr
                   then (let actdevs = map2 (\<lambda>row m. map (\<lambda>x. fsub x m) row) acts means
                         in mdiv (dot actdevs (mT actdevs)) (Fin (real bs)))
                   else mdiv (dot acts (mT acts)) (Fin (real (batch_size self))))
            in self1\<lparr>corrmatrix_ave := nd_moving_avg r (corrmatrix_ave self) corrmatrix\<rparr>))"

subsection \<open>\<open>DictLearner.save\<close>\<close>

text \<open>
  \<open>get_param_list\<close> (lines 288 and 289) raises \<open>NotImplementedError\<close>, and
  \<open>LCALearner\<close> does not override it.
\<close>

definition get_param_list :: "'a dict_learner_scheme \<Rightarrow> py_error + unit" where
  "get_param_list self = Inl Not_implemented"

definition py_or_str :: "string option \<Rightarrow> string option \<Rightarrow> string option" where
  "py_or_str a d = (case a of None \<Rightarrow> d | Some f \<Rightarrow> if f = [] then d else Some f)"

text \<open>
  Lines 291 to 301. The file that \<open>pickle.dump\<close> writes once \<open>get_param_list\<close> has
  returned is not part of the model.
\<close>

definition save :: "'a dict_learner_scheme \<Rightarrow> string option \<Rightarrow> py_error + 'a dict_learner_scheme" where
  "save self filename_arg =
     (case py_or_str filename_arg (paramfile self) of
        None \<Rightarrow> Inl Need_filename
      | Some f \<Rightarrow>
          (let self1 = self\<lparr>paramfile := Some f\<rparr>
           in bind_err (get_param_list self1) (\<lambda>params. Inr self1)))"

subsection \<open>\<open>DictLearner.run\<close> on an \<open>LCALearner\<close>\<close>

text \<open>What \<open>run\<close> prints.\<close>

datatype log_event = Trial nat | Saving string | Failed py_error

text \<open>
  The stimulus set: its default batch size, the batch that the \<open>k\<close>-th call of
  \<open>rand_stim\<close> draws for a batch size, and its \<open>data\<close>.
\<close>

record stim_set =
  stim_batch_size :: nat
  rand_stim :: "nat \<Rightarrow> nat \<Rightarrow> matrix"
  stim_data :: matrix

text \<open>
  Lines 136 to 141: the attempt to save and its \<open>except (ValueError, TypeError)\<close>. The
  first line of the \<open>try\<close> block concatenates a string and \<open>self.paramfile\<close>.
\<close>

definition checkpoint ::
  "'a lca_learner_scheme \<Rightarrow> nat \<Rightarrow> nat \<Rightarrow> py_error + 'a lca_learner_scheme \<times> log_event list" where
  "checkpoint self trial ntrials =
     (if (trial mod 1000 = 0 \<or> trial + 1 = ntrials) \<and> trial \<noteq> 0
      then
        (let (res, printed) =
               (case paramfile self of
                  None \<Rightarrow> (Inl Concat_None, [])
                | Some f \<Rightarrow> (save self None, [Saving f]))
         in case res of
              Inr self' \<Rightarrow> Inr (self', printed)
            | Inl e \<Rightarrow>
                if class_of e = ValueError \<or> class_of e = TypeError
                then Inr (self, printed @ [Failed e])
                else Inl e)
      else Inr (self, []))"

text \<open>
  One trial (lines 127 to 143). The methods are those an \<open>LCALearner\<close> has: its own
  \<open>infer\<close> and \<open>adjust_rates\<close>, and \<open>learn\<close>, \<open>store_statistics\<close> and \<open>save\<close> of
  \<open>DictLearner\<close>.
\<close>

definition run_trial ::
  "('a lca_learner_scheme \<Rightarrow> matrix \<Rightarrow> py_error + matrix \<times> matrix \<times> vec) \<Rightarrow> nat \<Rightarrow>
     stim_set \<Rightarrow> nat \<Rightarrow> nat \<Rightarrow> fl option \<Rightarrow> bool \<Rightarrow> nat \<Rightarrow>
     'a lca_learner_scheme \<times> log_event list \<Rightarrow>
     (py_error + 'a lca_learner_scheme \<times> log_event list) option" where
  "run_trial infer_gpu fuel stims ntrials bs rate_decay do_normalize trial sl =
     (let self = fst sl;
          log1 = (if trial mod 50 = 0 then snd sl @ [Trial trial] else snd sl);
          X = rand_stim stims trial bs
      in case infer infer_gpu fuel self X None None of
           None \<Rightarrow> None
         | Some (Inl e) \<Rightarrow> Some (Inl e)
         | Some (Inr (acts, um, th)) \<Rightarrow>
             (let (self1, thiserror) = learn self X acts do_normalize;
                  self2 = store_statistics self1 acts thiserror (Some bs) True
              in case checkpoint self2 trial ntrials of
                   Inl e \<Rightarrow> Some (Inl e)
                 | Inr (self3, printed) \<Rightarrow>
                     Some (Inr (case rate_decay of
                                  None \<Rightarrow> self3
                                | Some factor \<Rightarrow> lca_adjust_rates self3 factor,
                                log1 @ printed))))"

fun run_loop ::
  "('a lca_learner_scheme \<Rightarrow> matrix \<Rightarrow> py_error + matrix \<times> matrix \<times> vec) \<Rightarrow> nat \<Rightarrow>
     stim_set \<Rightarrow> nat \<Rightarrow> nat \<Rightarrow> fl option \<Rightarrow> bool \<Rightarrow> nat list \<Rightarrow>
     'a lca_learner_scheme \<times> log_event list \<Rightarrow>
     (py_error + 'a lca_learner_scheme \<times> log_event list) option" where
  "run_loop infer_gpu fuel stims ntrials bs rate_decay do_normalize [] sl = Some (Inr sl)"
| "run_loop infer_gpu fuel stims ntrials bs rate_decay do_normalize (trial # trials) sl =
     (case run_trial infer_gpu fuel stims ntrials bs rate_decay do_normalize trial sl of
        None \<Rightarrow> None
      | Some (Inl e) \<Rightarrow> Some (Inl e)
      | Some (Inr sl') \<Rightarrow>
          run_loop infer_gpu fuel stims ntrials bs rate_decay do_normalize trials sl')"

text \<open>\<open>run(ntrials, batch_size, show=False, rate_decay, normalize)\<close>, lines 124 to 143.\<close>

definition run ::
  "('a lca_learner_scheme \<Rightarrow> matrix \<Rightarrow> py_error + matrix \<times> matrix \<times> vec) \<Rightarrow> nat \<Rightarrow>
     'a lca_learner_scheme \<Rightarrow> stim_set \<Rightarrow> nat \<Rightarrow> nat option \<Rightarrow> fl option \<Rightarrow> bool \<Rightarrow>
     (py_error + 'a lca_learner_scheme \<times> log_event list) option" where
  "run infer_gpu fuel self stims ntrials batch_size_arg rate_decay do_normalize =
     run_loop infer_gpu fuel stims ntrials (py_or_nat batch_size_arg (stim_batch_size stims))
       rate_decay do_normalize [0..<ntrials] (self, [])"

subsection \<open>\<open>LCALearner.sort_dict\<close>\<close>

text \<open>
  \<open>np.argsort\<close>: the positions of a vector in the order of its values, \<open>nan\<close> last.
  numpy does not say in which order it leaves equal values; the model keeps them in
  the order of their positions.
\<close>

definition sorts_before :: "fl \<Rightarrow> fl \<Rightarrow> bool" where
  "sorts_before a b = (flt a b \<or> (\<not> isnan a \<and> isnan b))"

fun insert_idx :: "vec \<Rightarrow> nat \<Rightarrow> nat list \<Rightarrow> nat list" where
  "insert_idx v i [] = [i]"
| "insert_idx v i (j # js) =
     (if sorts_before (v ! j) (v ! i) then j # insert_idx v i js else i # j # js)"

definition argsort :: "vec \<Rightarrow> nat list" where
  "argsort v = foldr (insert_idx v) [0..<length v] []"

text \<open>
  Lines 167 to 182 with \<open>plot=False\<close>. The method, which overrides
  \<open>DictLearner.sort_dict\<close>, returns \<open>means[sorter]\<close>.
\<close>

definition lca_sort_dict ::
  "('a lca_learner_scheme \<Rightarrow> matrix \<Rightarrow> py_error + matrix \<times> matrix \<times> vec) \<Rightarrow> nat \<Rightarrow>
     'a lca_learner_scheme \<Rightarrow> stim_set \<Rightarrow> nat option \<Rightarrow> bool \<Rightarrow>
     (py_error + 'a lca_learner_scheme \<times> vec) option" where
  "lca_sort_dict infer_gpu fuel self stims batch_size_arg allstims =
     (let testX = (if allstims then mT (stim_data stims)
                   else rand_stim stims 0 (py_or_nat batch_size_arg (10 * batch_size self)))
      in case infer infer_gpu fuel self testX None None of
           None \<Rightarrow> None
         | Some (Inl e) \<Rightarrow> Some (Inl e)
         | Some (Inr (acts, um, th)) \<Rightarrow>
             (let means = mean_axis1 (map (map ne0) acts);
                  sorter = argsort means
              in Some (bind_err (take_idx (Q self) sorter) (\<lambda>q.
                       bind_err (take_idx means sorter) (\<lambda>ms.
                       Inr (self\<lparr>Q := q\<rparr>, ms))))))"

text \<open>
  Examples: a stimulus set that draws the batch \<open>ex_X\<close> every time and whose data is
  the single stimulus \<open>(1, 0)\<close>; a learner with a parameter file; a learner whose
  blocks are one iteration with inference rate \<open>1\<close>; and, for learners that do not use
  the device, a stand-in for \<open>infer_gpu\<close>.
\<close>

definition ex_stims :: stim_set where
  "ex_stims = \<lparr> stim_batch_size = 1, rand_stim = (\<lambda>k n. ex_X), stim_data = [[Fin 1, Fin 0]] \<rparr>"

definition ex_file :: lca_learner where
  "ex_file = ex_lca2 \<lparr> paramfile := Some ''dict.pickle'' \<rparr>"

definition ex_sorting :: lca_learner where
  "ex_sorting = ex_lca \<lparr> infrate := Fin 1, niter := 1 \<rparr>"

definition no_gpu :: "lca_learner \<Rightarrow> matrix \<Rightarrow> py_error + matrix \<times> matrix \<times> vec" where
  "no_gpu self X = Inl Not_implemented"

section \<open>Properties\<close>

subsection \<open>Finite arrays\<close>


lemma isfinite_iff: "isfinite x \<longleftrightarrow> (\<exists>r. x = Fin r)"
  by (cases x) simp_all

lemma fvec_eq: "list_all isfinite r \<Longrightarrow> r = map Fin (map rl r)"
  by (induction r) (auto simp: isfinite_iff)

lemma fvec_ex: "list_all isfinite r \<Longrightarrow> \<exists>xs. r = map Fin xs"
  using fvec_eq by blast

lemma fsum_Nil [simp]: "fsum [] = Fin 0"
  by (simp add: fsum_def)

lemma fsum_Cons [simp]: "fsum (x # xs) = fadd x (fsum xs)"
  by (simp add: fsum_def)

lemma fsum_map_Fin: "fsum (map (\<lambda>k. Fin (f k)) ks) = Fin (\<Sum>k\<leftarrow>ks. f k)"
  by (induction ks) simp_all

lemma fsum_Fin: "fsum (map Fin xs) = Fin (sum_list xs)"
  using fsum_map_Fin [of "\<lambda>x. x" xs] by simp

lemma isfinite_fsum: "list_all isfinite xs \<Longrightarrow> isfinite (fsum xs)"
  using fvec_ex [of xs] by (auto simp: fsum_Fin)

lemma isfinite_fadd: "isfinite a \<Longrightarrow> isfinite b \<Longrightarrow> isfinite (fadd a b)"
  by (auto simp: isfinite_iff)

lemma isfinite_fsub: "isfinite a \<Longrightarrow> isfinite b \<Longrightarrow> isfinite (fsub a b)"
  by (auto simp: isfinite_iff fsub_def)

lemma isfinite_fmul: "isfinite a \<Longrightarrow> isfinite b \<Longrightarrow> isfinite (fmul a b)"
  by (auto simp: isfinite_iff)

lemma isfinite_dotv: "list_all isfinite x \<Longrightarrow> list_all isfinite y \<Longrightarrow> isfinite (dotv x y)"
  unfolding dotv_def
  by (rule isfinite_fsum) (auto simp: list_all_iff isfinite_fmul elim!: in_set_zipE)

lemma fmat_rows: "fmat n m A \<Longrightarrow> r \<in> set A \<Longrightarrow> length r = m \<and> list_all isfinite r"
  by (auto simp: fmat_def list_all_iff)

lemma fmat_nth: "fmat n m A \<Longrightarrow> i < n \<Longrightarrow> j < m \<Longrightarrow> isfinite (A ! i ! j)"
  using fmat_rows [of n m A "A ! i"] by (auto simp: fmat_def list_all_iff)

lemma fmat_ncols: "fmat n m A \<Longrightarrow> 0 < n \<Longrightarrow> ncols A = m"
  by (cases A) (auto simp: fmat_def ncols_def)

lemma fmat_mT: "fmat n m A \<Longrightarrow> 0 < n \<Longrightarrow> fmat m n (mT A)"
  using fmat_ncols [of n m A]
  by (auto simp: fmat_def mT_def list_all_iff)

lemma fmat_dot: "fmat n k A \<Longrightarrow> fmat k m B \<Longrightarrow> 0 < k \<Longrightarrow> fmat n m (dot A B)"
  using fmat_mT [of k m B]
  by (auto simp: fmat_def dot_def list_all_iff intro!: isfinite_dotv)

lemma fmat_map2:
  assumes "fmat n m A" "fmat n m B" "\<And>a b. isfinite a \<Longrightarrow> isfinite b \<Longrightarrow> isfinite (f a b)"
  shows "fmat n m (map2 (map2 f) A B)"
  using assms
  by (auto simp: fmat_def list_all_iff elim!: in_set_zipE)

lemma fmat_madd: "fmat n m A \<Longrightarrow> fmat n m B \<Longrightarrow> fmat n m (madd A B)"
  unfolding madd_def by (rule fmat_map2) (auto simp: isfinite_fadd)

lemma fmat_msub: "fmat n m A \<Longrightarrow> fmat n m B \<Longrightarrow> fmat n m (msub A B)"
  unfolding msub_def by (rule fmat_map2) (auto simp: isfinite_fsub)

lemma fmat_smul: "isfinite a \<Longrightarrow> fmat n m A \<Longrightarrow> fmat n m (smul a A)"
  by (auto simp: fmat_def smul_def list_all_iff isfinite_fmul)

lemma fmat_learn_update:
  assumes "fmat N D (Q self)" "fmat D B data" "fmat N B coeffs"
    and "0 < N" "0 < D" "0 < B"
    and "isfinite (learnrate self)" "isfinite (theta self)"
  shows "fmat N D (fst (learn_update self data coeffs))"
proof -
  define R where "R = msub (mT data) (dot (mT coeffs) (Q self))"
  define Q1 where "Q1 = madd (Q self) (smul (learnrate self) (dot coeffs R))"
  have R: "fmat B D R"
    unfolding R_def using assms by (intro fmat_msub fmat_mT fmat_dot) 
  have Q1: "fmat N D Q1"
    unfolding Q1_def using assms R by (intro fmat_madd fmat_smul fmat_dot)
  have "fmat N D (madd Q1 (smul (theta self) (msub Q1 (dot Q1 (dot (mT Q1) Q1)))))"
    using assms Q1 by (intro fmat_madd fmat_smul fmat_msub fmat_dot fmat_mT)
  then show ?thesis
    using Q1 by (simp add: learn_update_def Let_def R_def Q1_def)
qed


lemma map2_same_list: "map2 f (map g xs) (map h xs) = map (\<lambda>x. f (g x) (h x)) xs"
  by (induction xs) simp_all

lemma map2_self: "map2 f xs xs = map (\<lambda>x. f x x) xs"
  by (induction xs) simp_all

lemma nth_mT: "fmat n m A \<Longrightarrow> 0 < n \<Longrightarrow> j < m \<Longrightarrow> mT A ! j = map (\<lambda>r. r ! j) A"
  using fmat_ncols [of n m A] by (simp add: mT_def)

lemma sum_list_delta:
  "i < n \<Longrightarrow> (\<Sum>k\<leftarrow>[0..<n]. if i = k then f k else (0::real)) = f i"
  by (simp add: interv_sum_list_conv_sum_set_nat)

lemma fmul_fin: "isfinite a \<Longrightarrow> isfinite b \<Longrightarrow> fmul a b = Fin (rl a * rl b)"
  by (auto simp: isfinite_iff)

lemma map_col: "map (\<lambda>r. r ! j) A = map (\<lambda>k. A ! k ! j) [0..<length A]"
  by (rule nth_equalityI) simp_all

lemma dotv_diag_row:
  assumes A: "fmat n m A" and i: "i < n" and j: "j < m"
    and v: "length v = n" "list_all isfinite v"
  shows "dotv (diag v ! i) (mT A ! j) = fmul (v ! i) (A ! i ! j)"
proof -
  have n: "0 < n" using i by simp
  have len: "length A = n" using A by (simp add: fmat_def)
  have col: "mT A ! j = map (\<lambda>k. A ! k ! j) [0..<n]"
    using nth_mT [OF A n j] len map_col [of j A] by simp
  have row: "diag v ! i = map (\<lambda>k. if i = k then v ! i else Fin 0) [0..<n]"
    using i v by (simp add: diag_def)
  have vi: "isfinite (v ! i)"
    using v i by (simp add: list_all_length)
  have tm: "fmul (if i = k then v ! i else Fin 0) (A ! k ! j)
      = Fin (if i = k then rl (v ! i) * rl (A ! i ! j) else 0)" if "k \<in> set [0..<n]" for k
    using that fmat_nth [OF A _ j, of k] vi by (auto simp: fmul_fin)
  have "dotv (diag v ! i) (mT A ! j)
      = fsum (map (\<lambda>k. fmul (if i = k then v ! i else Fin 0) (A ! k ! j)) [0..<n])"
    by (simp only: dotv_def row col map2_same_list)
  also have "\<dots> = fsum (map (\<lambda>k. Fin (if i = k then rl (v ! i) * rl (A ! i ! j) else 0)) [0..<n])"
    by (rule arg_cong [where f = fsum], rule map_cong [OF refl], rule tm)
  also have "\<dots> = Fin (rl (v ! i) * rl (A ! i ! j))"
    using i by (simp only: fsum_map_Fin sum_list_delta)
  also have "\<dots> = fmul (v ! i) (A ! i ! j)"
    using vi fmat_nth [OF A i j] by (simp add: fmul_fin)
  finally show ?thesis .
qed

lemma dot_diag_row:
  assumes A: "fmat n m A" and i: "i < n" and v: "length v = n" "list_all isfinite v"
  shows "dot (diag v) A ! i = map (fmul (v ! i)) (A ! i)"
proof (rule nth_equalityI)
  have n: "0 < n" using i by simp
  have lenT: "length (mT A) = m"
    using fmat_mT [OF A n] by (simp add: fmat_def)
  have lenr: "length (A ! i) = m"
    using A i by (simp add: fmat_def list_all_length)
  have ld: "length (diag v) = n" using v by (simp add: diag_def)
  show "length (dot (diag v) A ! i) = length (map (fmul (v ! i)) (A ! i))"
    using i ld lenT lenr by (simp add: dot_def)
  fix j assume "j < length (dot (diag v) A ! i)"
  then have j: "j < m" using i ld lenT by (simp add: dot_def)
  show "dot (diag v) A ! i ! j = map (fmul (v ! i)) (A ! i) ! j"
    using dotv_diag_row [OF A i j v] i j ld lenT lenr by (simp add: dot_def)
qed

lemma row_norm_Fin: "row_norm (map Fin xs) = Fin (sqrt (\<Sum>x\<leftarrow>xs. x * x))"
proof -
  have "0 \<le> (\<Sum>x\<leftarrow>xs. x * x)" by (rule sum_list_nonneg) auto
  moreover have "map (\<lambda>x. fmul x x) (map Fin xs) = map (\<lambda>x. Fin (x * x)) xs" by simp
  ultimately show ?thesis
    by (simp add: row_norm_def fsum_map_Fin del: map_map)
qed

lemma row_norm_scaled:
  assumes "sqrt (\<Sum>x\<leftarrow>xs. x * x) \<noteq> 0"
  shows "row_norm (map (fmul (fdiv (Fin 1) (row_norm (map Fin xs)))) (map Fin xs)) = Fin 1"
proof -
  define S where "S = (\<Sum>x\<leftarrow>xs. x * x)"
  have S0: "0 \<le> S" unfolding S_def by (rule sum_list_nonneg) auto
  have Spos: "0 < sqrt S" using assms S0 by (simp add: S_def less_le)
  define c where "c = 1 / sqrt S"
  have v: "fdiv (Fin 1) (row_norm (map Fin xs)) = Fin c"
    using Spos by (simp add: row_norm_Fin S_def [symmetric] c_def)
  have "map (fmul (Fin c)) (map Fin xs) = map Fin (map (\<lambda>x. c * x) xs)" by simp
  then have "row_norm (map (fmul (Fin c)) (map Fin xs)) = Fin (sqrt (\<Sum>x\<leftarrow>xs. (c * x) * (c * x)))"
    by (simp only: row_norm_Fin) (simp add: comp_def)
  also have "(\<Sum>x\<leftarrow>xs. (c * x) * (c * x)) = c * c * S"
  proof -
    have "(\<lambda>x. (c * x) * (c * x)) = (\<lambda>x. (c * c) * (x * x))"
      by (simp add: fun_eq_iff)
    then show ?thesis
      unfolding S_def by (simp only: sum_list_const_mult)
  qed
  also have "sqrt (c * c * S) = 1"
    using Spos by (simp add: c_def real_sqrt_mult real_sqrt_divide)
  finally show ?thesis using v by simp
qed


lemma normmatrix_vec:
  assumes "i < length A"
  shows "map (\<lambda>x. fdiv (Fin 1) (fsqrt x)) (sum_axis1 (mmul A A)) ! i = fdiv (Fin 1) (row_norm (A ! i))"
  using assms by (simp add: sum_axis1_def mmul_def map2_self row_norm_def)

lemma learn_Q:
  "Q (fst (learn self data coeffs True)) =
     dot (normmatrix (fst (learn_update self data coeffs))) (fst (learn_update self data coeffs))"
  by (simp add: learn_def split_beta Let_def)

lemma normalized_row:
  assumes A: "fmat n m A" and i: "i < n"
    and nz: "list_all (\<lambda>r. row_norm r \<noteq> Fin 0) A"
  shows "dot (normmatrix A) A ! i = map (fmul (fdiv (Fin 1) (row_norm (A ! i)))) (A ! i)"
    and "row_norm (dot (normmatrix A) A ! i) = Fin 1"
proof -
  define v where "v = map (\<lambda>x. fdiv (Fin 1) (fsqrt x)) (sum_axis1 (mmul A A))"
  have len: "length A = n" using A by (simp add: fmat_def)
  have lv: "length v = n" by (simp add: v_def sum_axis1_def mmul_def len)
  have fin_row: "list_all isfinite (A ! k)" if "k < n" for k
    using A that by (simp add: fmat_def list_all_length)
  have vk: "v ! k = fdiv (Fin 1) (row_norm (A ! k))" if "k < n" for k
    unfolding v_def using that len by (simp add: normmatrix_vec)
  have fin_vk: "isfinite (v ! k)" if k: "k < n" for k
  proof -
    obtain xs where xs: "A ! k = map Fin xs" using fvec_ex [OF fin_row [OF k]] by blast
    have "row_norm (A ! k) \<noteq> Fin 0"
      using nz k len by (simp add: list_all_length)
    then show ?thesis
      using vk [OF k] by (simp add: xs row_norm_Fin)
  qed
  then have fv: "list_all isfinite v" by (simp add: list_all_length lv)
  obtain xs where xs: "A ! i = map Fin xs" using fvec_ex [OF fin_row [OF i]] by blast
  have "row_norm (A ! i) \<noteq> Fin 0"
    using nz i len by (simp add: list_all_length)
  then have nz': "sqrt (\<Sum>x\<leftarrow>xs. x * x) \<noteq> 0" by (simp add: xs row_norm_Fin)
  have "dot (normmatrix A) A ! i = map (fmul (v ! i)) (A ! i)"
    unfolding normmatrix_def v_def [symmetric] by (rule dot_diag_row [OF A i lv fv])
  then show row: "dot (normmatrix A) A ! i = map (fmul (fdiv (Fin 1) (row_norm (A ! i)))) (A ! i)"
    by (simp add: vk [OF i])
  show "row_norm (dot (normmatrix A) A ! i) = Fin 1"
    using row_norm_scaled [OF nz'] by (simp add: row xs)
qed

lemma learn_normalized:
  "learn self data coeffs True =
     (self\<lparr>Q := dot (normmatrix (fst (learn_update self data coeffs)))
                  (fst (learn_update self data coeffs))\<rparr>,
      mean_all (msq (snd (learn_update self data coeffs))))"
  by (simp add: learn_def split_beta Let_def)

subsection \<open>Rows of zero norm\<close>


lemma fadd_NaN_right [simp]: "fadd x NaN = NaN"
  by (cases x) simp_all

lemma fsum_NaN: "NaN \<in> set xs \<Longrightarrow> fsum xs = NaN"
  by (induction xs) auto

lemma fadd_eq_Fin: "fadd a b = Fin s \<Longrightarrow> \<exists>x y. a = Fin x \<and> b = Fin y \<and> s = x + y"
  by (cases a; cases b) simp_all

lemma fmul_self_eq_Fin: "fmul a a = Fin s \<Longrightarrow> \<exists>x. a = Fin x \<and> s = x * x"
  by (cases a) simp_all

lemma fsqrt_eq_zero: "fsqrt x = Fin 0 \<Longrightarrow> x = Fin 0"
  by (cases x) (auto split: if_splits)

lemma sq_sum_Fin:
  "fsum (map (\<lambda>x. fmul x x) r) = Fin s \<Longrightarrow> r = map Fin (map rl r) \<and> s = (\<Sum>x\<leftarrow>r. rl x * rl x)"
proof (induction r arbitrary: s)
  case Nil
  then show ?case by simp
next
  case (Cons a r)
  from Cons.prems obtain x y where xy: "fmul a a = Fin x" "fsum (map (\<lambda>x. fmul x x) r) = Fin y" "s = x + y"
    using fadd_eq_Fin by fastforce
  from xy(1) obtain z where z: "a = Fin z" "x = z * z"
    using fmul_self_eq_Fin by blast
  from Cons.IH [OF xy(2)] xy(3) z show ?case by simp
qed

lemma row_norm_zero:
  assumes "row_norm r = Fin 0"
  shows "r = replicate (length r) (Fin 0)"
proof -
  have s0: "fsum (map (\<lambda>x. fmul x x) r) = Fin 0"
    using assms by (simp add: row_norm_def fsqrt_eq_zero)
  from sq_sum_Fin [OF s0] have r: "r = map Fin (map rl r)" and z: "(\<Sum>x\<leftarrow>r. rl x * rl x) = 0"
    by simp_all
  have nonneg: "\<And>y. y \<in> set (map (\<lambda>x. rl x * rl x) r) \<Longrightarrow> 0 \<le> y" by auto
  have "(sum_list (map (\<lambda>x. rl x * rl x) r) = 0)
      = (\<forall>y\<in>set (map (\<lambda>x. rl x * rl x) r). y = 0)"
    by (rule sum_list_nonneg_eq_0_iff) (rule nonneg)
  with z have "\<forall>x\<in>set r. rl x = 0" by simp
  then have "map rl r = replicate (length r) 0"
    by (simp add: map_replicate_const [symmetric] cong: map_cong)
  then show ?thesis
    using r by (metis length_map map_replicate)
qed

lemma length_diag: "length (diag v) = length v"
  by (simp add: diag_def)

lemma nth_mT_gen:
  assumes "length A = n" "list_all (\<lambda>r. length r = m) A" "0 < n" "j < m"
  shows "mT A ! j = map (\<lambda>r. r ! j) A"
proof -
  have "ncols A = m" using assms by (cases A) (auto simp: ncols_def)
  then show ?thesis using assms by (simp add: mT_def)
qed

lemma zero_row_NaN:
  assumes len: "length A = n" and rect: "list_all (\<lambda>r. length r = m) A"
    and i: "i < n" and z: "row_norm (A ! i) = Fin 0"
  shows "dot (normmatrix A) A ! i = replicate m NaN"
proof -
  define v where "v = map (\<lambda>x. fdiv (Fin 1) (fsqrt x)) (sum_axis1 (mmul A A))"
  have n: "0 < n" using i by simp
  have lv: "length v = n" by (simp add: v_def sum_axis1_def mmul_def len)
  have lri: "length (A ! i) = m" using rect i len by (simp add: list_all_length)
  have ncols: "ncols A = m" using len rect n by (cases A) (auto simp: ncols_def)
  have vi: "v ! i = PInf"
    unfolding v_def using i len z by (simp add: normmatrix_vec)
  have Ai: "A ! i = replicate m (Fin 0)"
    using row_norm_zero [OF z] lri by simp
  have entry: "dotv (diag v ! i) (mT A ! j) = NaN" if j: "j < m" for j
  proof -
    have row: "diag v ! i = map (\<lambda>k. if i = k then v ! i else Fin 0) [0..<n]"
      using i lv by (simp add: diag_def)
    have col: "mT A ! j = map (\<lambda>k. A ! k ! j) [0..<n]"
      using nth_mT_gen [OF len rect n j] len map_col [of j A] by simp
    have "map2 fmul (diag v ! i) (mT A ! j) ! i = fmul (v ! i) (A ! i ! j)"
      using i by (simp add: row col)
    also have "\<dots> = NaN" using vi Ai j by simp
    finally have "NaN \<in> set (map2 fmul (diag v ! i) (mT A ! j))"
      using i by (metis (no_types, lifting) row col length_map length_upt length_zip
          min.idem nth_mem diff_zero)
    then show ?thesis by (simp add: dotv_def fsum_NaN)
  qed
  have "dot (normmatrix A) A ! i = map (dotv (diag v ! i)) (mT A)"
    using i lv by (simp add: dot_def normmatrix_def v_def [symmetric] length_diag)
  also have "\<dots> = replicate m NaN"
  proof (rule nth_equalityI)
    have lenT: "length (mT A) = m" by (simp add: mT_def ncols)
    show "length (map (dotv (diag v ! i)) (mT A)) = length (replicate m NaN)"
      using lenT by simp
    fix j assume "j < length (map (dotv (diag v ! i)) (mT A))"
    then have j: "j < m" using lenT by simp
    show "map (dotv (diag v ! i)) (mT A) ! j = replicate m NaN ! j"
      using j lenT entry [OF j] by simp
  qed
  finally show ?thesis .
qed

lemmas array_defs = mT_def ncols_def dot_def dotv_def madd_def msub_def mmul_def smul_def
  msq_def diag_def fsub_def sum_axis1_def mean_all_def mean_v_def

subsection \<open>The thresholds\<close>


lemma init_thresh_b: "init_thresh self X = b_thresh self (overlap_b self X)"
  by (simp add: init_thresh_def)

lemma fsum_abs_no_nan:
  "list_all (\<lambda>x. \<not> isnan x) r \<Longrightarrow> fsum (map fabs r) = PInf \<or> (\<exists>y. fsum (map fabs r) = Fin y)"
proof (induction r)
  case Nil
  then show ?case by simp
next
  case (Cons a r)
  then have "fsum (map fabs r) = PInf \<or> (\<exists>y. fsum (map fabs r) = Fin y)" by simp
  moreover have "fabs a = PInf \<or> (\<exists>y. fabs a = Fin y)"
    using Cons.prems by (cases a) simp_all
  ultimately show ?case by auto
qed

lemma mean_abs_no_nan:
  assumes "list_all (\<lambda>x. \<not> isnan x) r" and "r \<noteq> []"
  shows "\<not> isnan (mean_v (map fabs r))"
proof -
  have "0 < real (length r)" using assms(2) by simp
  then show ?thesis
    using fsum_abs_no_nan [OF assms(1)] by (auto simp: mean_v_def)
qed

lemma fge_refl: "\<not> isnan m \<Longrightarrow> fge m m"
  by (cases m) simp_all

lemma fge_not_flt: "\<not> isnan t \<Longrightarrow> \<not> isnan m \<Longrightarrow> \<not> flt t m \<Longrightarrow> fge t m"
  by (cases t; cases m) simp_all

lemma fmaximum_ge: "\<not> isnan t \<Longrightarrow> \<not> isnan m \<Longrightarrow> fge (fmaximum t m) m"
  by (cases t; cases m) simp_all

lemma fge_zero_no_nan: "fge m (Fin 0) \<Longrightarrow> \<not> isnan m"
  by (cases m) simp_all

lemma b_thresh_floor:
  assumes "\<not> isnan (min_thresh self)"
    and "list_all (\<lambda>r. r \<noteq> [] \<and> list_all (\<lambda>x. \<not> isnan x) r) b"
  shows "list_all (\<lambda>t. fge t (min_thresh self)) (b_thresh self b)"
proof -
  have "fge (fmaximum (mean_v (map fabs r)) (min_thresh self)) (min_thresh self)"
    if "r \<in> set b" for r
  proof -
    have "r \<noteq> []" "list_all (\<lambda>x. \<not> isnan x) r"
      using assms(2) that by (simp_all add: list_all_iff)
    then show ?thesis
      using assms(1) by (intro fmaximum_ge mean_abs_no_nan)
  qed
  then show ?thesis
    by (simp add: b_thresh_def mean_axis1_def list_all_iff)
qed

lemma adapt_thresh_floor:
  assumes "\<not> isnan (min_thresh self)"
    and "list_all (\<lambda>t. \<not> isnan (fmul (adapt self) t)) th"
  shows "list_all (\<lambda>t. fge t (min_thresh self)) (adapt_thresh self th)"
  using assms
  by (auto simp: adapt_thresh_def Let_def list_all_iff fge_refl fge_not_flt)

lemma lca_step_thresh:
  "lca_step self b c kk st = Inr st' \<Longrightarrow> inf_thresh st' = adapt_thresh self (inf_thresh st)"
  by (auto simp: lca_step_def Let_def split: if_splits)

lemma inner_loop_thresh:
  "inner_loop self b c kks st = Inr st'
     \<Longrightarrow> inf_thresh st' = (adapt_thresh self ^^ length kks) (inf_thresh st)"
proof (induction kks arbitrary: st)
  case Nil
  then show ?case by simp
next
  case (Cons kk kks)
  from Cons.prems obtain st1 where st1: "lca_step self b c kk st = Inr st1"
      "inner_loop self b c kks st1 = Inr st'"
    by (auto split: sum.splits)
  show ?case
    using Cons.IH [OF st1(2)] lca_step_thresh [OF st1(1)] by (simp add: funpow_swap1)
qed

text \<open>The thresholds stay free of nan under a finite factor.\<close>

lemma adapt_thresh_keeps:
  assumes "adapt self = Fin a" and "min_thresh self = Fin m"
    and "list_all (\<lambda>t. \<not> isnan t \<and> (a = 0 \<longrightarrow> isfinite t)) th"
  shows "list_all (\<lambda>t. \<not> isnan t \<and> (a = 0 \<longrightarrow> isfinite t)) (adapt_thresh self th)"
    and "list_all (\<lambda>t. \<not> isnan (fmul (adapt self) t)) th"
proof -
  have 1: "\<not> isnan (fmul (Fin a) t)" if "\<not> isnan t" "a = 0 \<longrightarrow> isfinite t" for t
    using that by (cases t) auto
  have 2: "a = 0 \<longrightarrow> isfinite (fmul (Fin a) t)" if "a = 0 \<longrightarrow> isfinite t" for t
    using that by (cases t) auto
  show "list_all (\<lambda>t. \<not> isnan (fmul (adapt self) t)) th"
    using assms 1 by (auto simp: list_all_iff)
  show "list_all (\<lambda>t. \<not> isnan t \<and> (a = 0 \<longrightarrow> isfinite t)) (adapt_thresh self th)"
    using assms 1 2 by (auto simp: adapt_thresh_def Let_def list_all_iff)
qed

lemma adapt_thresh_iter_floor:
  assumes "adapt self = Fin a" and "min_thresh self = Fin m"
    and "list_all (\<lambda>t. \<not> isnan t \<and> (a = 0 \<longrightarrow> isfinite t)) th"
  shows "list_all (\<lambda>t. fge t (min_thresh self)) ((adapt_thresh self ^^ Suc k) th)"
  using assms(3)
proof (induction k arbitrary: th)
  case 0
  have "\<not> isnan (min_thresh self)" using assms(2) by simp
  then show ?case
    using adapt_thresh_keeps(2) [OF assms(1,2) 0] by (simp add: adapt_thresh_floor)
next
  case (Suc k)
  have "list_all (\<lambda>t. fge t (min_thresh self)) ((adapt_thresh self ^^ Suc k) (adapt_thresh self th))"
    using adapt_thresh_keeps(1) [OF assms(1,2) Suc.prems] by (rule Suc.IH)
  then show ?case by (simp only: funpow_Suc_right o_apply)
qed


subsection \<open>The outer loop\<close>


lemma inner_loop_append:
  "inner_loop self b c (ks @ ks') st =
     (case inner_loop self b c ks st of Inl e \<Rightarrow> Inl e | Inr st1 \<Rightarrow> inner_loop self b c ks' st1)"
  by (induction ks arbitrary: st) (auto split: sum.splits)

lemma lca_step_nan:
  assumes "list_ex isnan (concat (u_update self b c st))"
  shows "lca_step self b c kk st = Inl (Blew_up kk)"
proof -
  have "concat (u_update self b c st) \<noteq> []"
  proof
    assume "concat (u_update self b c st) = []"
    with assms show False by (simp del: concat_eq_Nil_conv)
  qed
  then show ?thesis
    using assms by (simp add: lca_step_def Let_def del: concat_eq_Nil_conv)
qed

lemma lca_step_Inr_no_nan: "lca_step self b c kk st = Inr st' \<Longrightarrow> \<not> list_ex isnan (concat (inf_u st'))"
  by (auto simp: lca_step_def Let_def split: if_splits)

lemma inner_loop_no_nan:
  "inner_loop self b c kks st = Inr st' \<Longrightarrow> \<not> list_ex isnan (concat (inf_u st))
     \<Longrightarrow> \<not> list_ex isnan (concat (inf_u st'))"
proof (induction kks arbitrary: st)
  case Nil
  then show ?case by simp
next
  case (Cons kk kks)
  from Cons.prems(1) obtain st1 where st1: "lca_step self b c kk st = Inr st1"
      "inner_loop self b c kks st1 = Inr st'"
    by (auto split: sum.splits)
  show ?case
    using Cons.IH [OF st1(2) lca_step_Inr_no_nan [OF st1(1)]] .
qed

lemma outer_loop_no_nan:
  "outer_loop fuel self X b c tol cap err k st = Some (Inr st')
     \<Longrightarrow> \<not> list_ex isnan (concat (inf_u st))
     \<Longrightarrow> \<not> list_ex isnan (concat (inf_u st'))"
proof (induction fuel arbitrary: st err k)
  case 0
  then show ?case by (auto split: if_splits)
next
  case (Suc fuel)
  show ?case
  proof (cases "continue_cond tol cap err k")
    case False
    then show ?thesis using Suc.prems by auto
  next
    case True
    with Suc.prems(1) obtain st1 where st1: "block self b c st = Inr st1"
      "outer_loop fuel self X b c tol cap (mse self X st1) (k + 1) st1 = Some (Inr st')"
      by (auto split: sum.splits)
    have "\<not> list_ex isnan (concat (inf_u st1))"
      using inner_loop_no_nan [OF st1(1) [unfolded block_def] Suc.prems(2)] .
    then show ?thesis using Suc.IH [OF st1(2)] by blast
  qed
qed

lemma outer_loop_capped:
  "cap = Some m \<Longrightarrow> \<exists>r. outer_loop (nat (m - k)) self X b c tol cap err k st = Some r"
proof (induction "nat (m - k)" arbitrary: k err st)
  case 0
  then have "\<not> continue_cond tol cap err k" by (simp add: continue_cond_def)
  then show ?case by simp
next
  case (Suc n)
  then have eq: "nat (m - k) = Suc n" and n: "n = nat (m - (k + 1))" by linarith+
  show ?case
  proof (cases "continue_cond tol cap err k")
    case False
    then show ?thesis by simp
  next
    case True
    show ?thesis
    proof (cases "block self b c st")
      case (Inl e)
      then show ?thesis using True eq by simp
    next
      case (Inr st1)
      from Suc.hyps(1) [OF n Suc.prems, of "mse self X st1" st1]
      show ?thesis using True eq Inr n by simp
    qed
  qed
qed

lemma not_fgt_iff: "\<not> fgt e t \<longleftrightarrow> fge t e \<or> isnan e \<or> isnan t"
  by (cases e; cases t) (auto simp: fgt_def)

lemma outer_loop_mono:
  "outer_loop fuel self X b c tol cap err k st = Some r
     \<Longrightarrow> outer_loop (fuel + n) self X b c tol cap err k st = Some r"
proof (induction fuel arbitrary: st err k)
  case 0
  then show ?case by (auto split: if_splits)
next
  case (Suc fuel)
  show ?case
  proof (cases "continue_cond tol cap err k")
    case False
    then show ?thesis using Suc.prems by auto
  next
    case True
    show ?thesis
    proof (cases "block self b c st")
      case (Inl e)
      then have "r = Inl e" using True Suc.prems by simp
      then show ?thesis using True Inl by simp
    next
      case (Inr st1)
      then have "outer_loop fuel self X b c tol cap (mse self X st1) (k + 1) st1 = Some r"
        using True Suc.prems by simp
      from Suc.IH [OF this] show ?thesis using True Inr by simp
    qed
  qed
qed

lemma outer_loop_capped_all:
  assumes "cap = Some m"
  shows "\<exists>r. \<forall>n\<ge>nat (m - k). outer_loop n self X b c tol cap err k st = Some r"
proof -
  obtain r where r: "outer_loop (nat (m - k)) self X b c tol cap err k st = Some r"
    using outer_loop_capped [OF assms] by blast
  have "outer_loop n self X b c tol cap err k st = Some r" if "n \<ge> nat (m - k)" for n
    using outer_loop_mono [OF r, of "n - nat (m - k)"] that by simp
  then show ?thesis by blast
qed

lemma outer_loop_blocks:
  "outer_loop fuel self X b c tol cap err k st = Some (Inr st')
     \<Longrightarrow> \<exists>j\<le>fuel. inner_loop self b c (concat (replicate j [0..<niter self])) st = Inr st'
           \<and> (if j = 0 then \<not> continue_cond tol cap err k
              else continue_cond tol cap err k
                \<and> \<not> continue_cond tol cap (mse self X st') (k + int j)
                \<and> (\<forall>m. cap = Some m \<longrightarrow> k + int j \<le> m))"
proof (induction fuel arbitrary: st err k)
  case 0
  then have "\<not> continue_cond tol cap err k" "st' = st"
    by (auto split: if_splits)
  then show ?case by (intro exI [of _ 0]) simp
next
  case (Suc fuel)
  show ?case
  proof (cases "continue_cond tol cap err k")
    case False
    then have "st' = st" using Suc.prems by simp
    with False show ?thesis by (intro exI [of _ 0]) simp
  next
    case True
    with Suc.prems obtain st1 where st1: "block self b c st = Inr st1"
      "outer_loop fuel self X b c tol cap (mse self X st1) (k + 1) st1 = Some (Inr st')"
      by (auto split: sum.splits)
    from Suc.IH [OF st1(2)] obtain j where j: "j \<le> fuel"
      "inner_loop self b c (concat (replicate j [0..<niter self])) st1 = Inr st'"
      "if j = 0 then \<not> continue_cond tol cap (mse self X st1) (k + 1)
       else continue_cond tol cap (mse self X st1) (k + 1)
         \<and> \<not> continue_cond tol cap (mse self X st') (k + 1 + int j)
         \<and> (\<forall>m. cap = Some m \<longrightarrow> k + 1 + int j \<le> m)"
      by blast
    have run: "inner_loop self b c (concat (replicate (Suc j) [0..<niter self])) st = Inr st'"
      using st1(1) j(2) by (simp add: inner_loop_append block_def)
    have stop: "\<not> continue_cond tol cap (mse self X st') (k + int (Suc j))"
    proof (cases "j = 0")
      case True
      then have "st' = st1" using j(2) by simp
      then show ?thesis using j(3) True by simp
    next
      case False
      then show ?thesis using j(3) by (simp add: add.commute add.left_commute)
    qed
    have bound: "k + int (Suc j) \<le> m" if "cap = Some m" for m
    proof (cases "j = 0")
      case True
      have "k < m" using \<open>continue_cond tol cap err k\<close> that by (simp add: continue_cond_def)
      then show ?thesis using True by simp
    next
      case False
      then show ?thesis using j(3) that by simp
    qed
    show ?thesis
      using j(1) run stop True bound by (intro exI [of _ "Suc j"]) simp
  qed
qed

subsection \<open>A call that never returns\<close>


lemmas ex_lca_defs = ex_lca_def ex_stats_def ex_learner_def dict_learner.defs lca_learner.defs

lemmas lca_defs = overlap_b_def overlap_c_def init_state_def init_thresh_def b_thresh_def u_update_def
  apply_thresh_def adapt_thresh_def soft_threshold_def hard_threshold_def lca_step_def
  block_def mse_def eye_def zeros_def mean_axis1_def

lemma nocap_b: "overlap_b ex_nocap ex_X = [[Fin 1, Fin (1/2)]]"
  by (simp add: ex_nocap_def ex_X_def ex_lca_defs lca_defs array_defs)

lemma nocap_c: "overlap_c ex_nocap = [[Fin 0, Fin 0], [Fin 0, Fin 0]]"
  by (simp add: ex_nocap_def ex_lca_defs lca_defs array_defs)

lemma nocap_init:
  "init_state ex_nocap ex_X
     = \<lparr> inf_u = [[Fin 0, Fin 0]], inf_s = [[Fin 0, Fin 0]], inf_thresh = [Fin 10] \<rparr>"
  by (simp add: ex_nocap_def ex_X_def ex_lca_defs lca_defs array_defs)

lemma nocap_block:
  assumes "0 \<le> x" "x \<le> 1" "0 \<le> y" "y \<le> 1"
  shows "block ex_nocap [[Fin 1, Fin (1/2)]] [[Fin 0, Fin 0], [Fin 0, Fin 0]]
           \<lparr> inf_u = [[Fin x, Fin y]], inf_s = [[Fin 0, Fin 0]], inf_thresh = [Fin 10] \<rparr>
     = Inr \<lparr> inf_u = [[Fin (3/1000 + 997/1000 * x), Fin (3/2000 + 997/1000 * y)]],
             inf_s = [[Fin 0, Fin 0]], inf_thresh = [Fin 10] \<rparr>"
  using assms
  by (simp add: ex_nocap_def ex_lca_defs lca_defs array_defs Let_def)

lemma nocap_mse:
  "mse ex_nocap ex_X \<lparr> inf_u = um, inf_s = [[Fin 0, Fin 0]], inf_thresh = th \<rparr> = Fin (5/8)"
  by (simp add: ex_nocap_def ex_X_def ex_lca_defs lca_defs array_defs)

lemma nocap_outer:
  assumes "0 \<le> x" "x \<le> 1" "0 \<le> y" "y \<le> 1" "fgt err (Fin (1/100))"
  shows "outer_loop fuel ex_nocap ex_X [[Fin 1, Fin (1/2)]] [[Fin 0, Fin 0], [Fin 0, Fin 0]]
           (Fin (1/100)) None err k
           \<lparr> inf_u = [[Fin x, Fin y]], inf_s = [[Fin 0, Fin 0]], inf_thresh = [Fin 10] \<rparr> = None"
  using assms
proof (induction fuel arbitrary: x y err k)
  case 0
  then show ?case by (simp add: continue_cond_def)
next
  case (Suc fuel)
  have x': "0 \<le> 3/1000 + 997/1000 * x" "3/1000 + 997/1000 * x \<le> 1"
    and y': "0 \<le> 3/2000 + 997/1000 * y" "3/2000 + 997/1000 * y \<le> 1"
    using Suc.prems by simp_all
  have e: "fgt (Fin (5/8)) (Fin (1/100))" by (simp add: fgt_def)
  show ?case
    using Suc.prems(5) Suc.IH [OF x' y' e, of "k + 1"]
    by (simp add: continue_cond_def nocap_block [OF Suc.prems(1-4)] nocap_mse)
qed

lemma nocap_forever: "infer_cpu fuel ex_nocap ex_X None None = None"
proof -
  have tol: "py_or_fl None (tolerance ex_nocap) = Fin (1/100)"
    and cap: "py_or_int None (max_iter ex_nocap) = None"
    by (simp_all add: py_or_fl_def py_or_int_def ex_nocap_def ex_lca_defs)
  have "outer_loop fuel ex_nocap ex_X [[Fin 1, Fin (1/2)]] [[Fin 0, Fin 0], [Fin 0, Fin 0]]
           (Fin (1/100)) None (fadd (Fin (1/100)) (Fin 1)) 0
           \<lparr> inf_u = [[Fin 0, Fin 0]], inf_s = [[Fin 0, Fin 0]], inf_thresh = [Fin 10] \<rparr> = None"
    by (rule nocap_outer) (simp_all add: fgt_def)
  then show ?thesis
    by (simp add: infer_cpu_def tol cap nocap_b nocap_c nocap_init)
qed

lemma nocap_forever_arg: "infer_cpu fuel ex_nocap ex_X None (Some 0) = None"
proof -
  have tol: "py_or_fl None (tolerance ex_nocap) = Fin (1/100)"
    and cap: "py_or_int (Some 0) (max_iter ex_nocap) = None"
    by (simp_all add: py_or_fl_def py_or_int_def ex_nocap_def ex_lca_defs)
  have "outer_loop fuel ex_nocap ex_X [[Fin 1, Fin (1/2)]] [[Fin 0, Fin 0], [Fin 0, Fin 0]]
           (Fin (1/100)) None (fadd (Fin (1/100)) (Fin 1)) 0
           \<lparr> inf_u = [[Fin 0, Fin 0]], inf_s = [[Fin 0, Fin 0]], inf_thresh = [Fin 10] \<rparr> = None"
    by (rule nocap_outer) (simp_all add: fgt_def)
  then show ?thesis
    by (simp add: infer_cpu_def tol cap nocap_b nocap_c nocap_init)
qed

subsection \<open>Calls that return\<close>


lemmas dy_defs = ex_dyadic_def ex_X_def ex_lca_defs lca_defs array_defs

lemma dy_b: "overlap_b (ex_dyadic \<lparr> max_iter := mi \<rparr>) ex_X = [[Fin 1, Fin (1/2)]]"
  by (simp add: dy_defs)

lemma dy_c: "overlap_c (ex_dyadic \<lparr> max_iter := mi \<rparr>) = [[Fin 0, Fin 0], [Fin 0, Fin 0]]"
  by (simp add: dy_defs)

lemma dy_init:
  "init_state (ex_dyadic \<lparr> max_iter := mi \<rparr>) ex_X
     = \<lparr> inf_u = [[Fin 0, Fin 0]], inf_s = [[Fin 0, Fin 0]], inf_thresh = [Fin (3/4)] \<rparr>"
  by (simp add: dy_defs)

lemma dy_block1:
  "block (ex_dyadic \<lparr> max_iter := mi \<rparr>) [[Fin 1, Fin (1/2)]] [[Fin 0, Fin 0], [Fin 0, Fin 0]]
        \<lparr> inf_u = [[Fin 0, Fin 0]], inf_s = [[Fin 0, Fin 0]], inf_thresh = [Fin (3/4)] \<rparr>
     = Inr \<lparr> inf_u = [[Fin 1, Fin (1/2)]], inf_s = [[Fin 1, Fin 0]], inf_thresh = [Fin (3/8)] \<rparr>"
  by (simp add: dy_defs Let_def)

lemma dy_block2:
  "block (ex_dyadic \<lparr> max_iter := mi \<rparr>) [[Fin 1, Fin (1/2)]] [[Fin 0, Fin 0], [Fin 0, Fin 0]]
        \<lparr> inf_u = [[Fin 1, Fin (1/2)]], inf_s = [[Fin 1, Fin 0]], inf_thresh = [Fin (3/8)] \<rparr>
     = Inr \<lparr> inf_u = [[Fin 1, Fin (1/2)]], inf_s = [[Fin 1, Fin (1/2)]], inf_thresh = [Fin (1/4)] \<rparr>"
  by (simp add: dy_defs Let_def)

lemma dy_mse1:
  "mse (ex_dyadic \<lparr> max_iter := mi \<rparr>) ex_X
        \<lparr> inf_u = [[Fin 1, Fin (1/2)]], inf_s = [[Fin 1, Fin 0]], inf_thresh = [Fin (3/8)] \<rparr>
     = Fin (1/8)"
  by (simp add: dy_defs)

lemma dy_mse2:
  "mse (ex_dyadic \<lparr> max_iter := mi \<rparr>) ex_X
        \<lparr> inf_u = [[Fin 1, Fin (1/2)]], inf_s = [[Fin 1, Fin (1/2)]], inf_thresh = [Fin (1/4)] \<rparr>
     = Fin 0"
  by (simp add: dy_defs)

lemma dy_par:
  "tolerance (ex_dyadic \<lparr> max_iter := mi \<rparr>) = Fin (1/64)"
  "max_iter (ex_dyadic \<lparr> max_iter := mi \<rparr>) = mi"
  "max_iter ex_dyadic = None"
  "ex_dyadic \<lparr> max_iter := None \<rparr> = ex_dyadic"
  by (simp_all add: ex_dyadic_def ex_lca_defs)

text \<open>The call with the effective cap \<open>cap\<close>, whatever supplies it.\<close>

lemma dy_two_blocks:
  assumes "py_or_int ma mi = cap" and "cap = None \<or> (\<exists>m. cap = Some m \<and> 2 \<le> m)"
  shows "infer_cpu (Suc (Suc n)) (ex_dyadic \<lparr> max_iter := mi \<rparr>) ex_X None ma
     = Some (Inr ([[Fin 1], [Fin (1/2)]], [[Fin 1], [Fin (1/2)]], [Fin (1/4)]))"
  using assms(2)
  by (auto simp add: infer_cpu_def assms(1) dy_par py_or_fl_def dy_b dy_c dy_init dy_block1 dy_block2
      dy_mse1 dy_mse2 continue_cond_def fgt_def array_defs)

lemma dy_one_block_short:
  assumes "py_or_int ma mi = cap" and "cap = None \<or> (\<exists>m. cap = Some m \<and> 2 \<le> m)"
  shows "infer_cpu 1 (ex_dyadic \<lparr> max_iter := mi \<rparr>) ex_X None ma = None"
  using assms(2)
  by (auto simp add: infer_cpu_def assms(1) dy_par py_or_fl_def dy_b dy_c dy_init dy_block1 dy_block2
      dy_mse1 dy_mse2 continue_cond_def fgt_def array_defs)

lemma dy_cap_one:
  assumes "py_or_int ma mi = Some 1"
  shows "infer_cpu (Suc n) (ex_dyadic \<lparr> max_iter := mi \<rparr>) ex_X None ma
     = Some (Inr ([[Fin 1], [Fin 0]], [[Fin 1], [Fin (1/2)]], [Fin (3/8)]))"
  by (simp add: infer_cpu_def assms dy_par py_or_fl_def dy_b dy_c dy_init dy_block1 dy_block2
      dy_mse1 dy_mse2 continue_cond_def fgt_def array_defs)

lemma dy_cap_zero:
  assumes "py_or_int ma mi = Some 0"
  shows "infer_cpu n (ex_dyadic \<lparr> max_iter := mi \<rparr>) ex_X None ma
     = Some (Inr ([[Fin 0], [Fin 0]], [[Fin 0], [Fin 0]], [Fin (3/4)]))"
  by (simp add: infer_cpu_def assms dy_par py_or_fl_def dy_b dy_c dy_init
      continue_cond_def fgt_def array_defs)


subsection \<open>Checkpoints, the trial loop and sorting\<close>


lemma store_statistics_frame:
  "Q (store_statistics self acts e bs cc) = Q self"
  "paramfile (store_statistics self acts e bs cc) = paramfile self"
  "learnrate (store_statistics self acts e bs cc) = learnrate self"
  "theta (store_statistics self acts e bs cc) = theta self"
  by (simp_all add: store_statistics_def Let_def)

lemma store_statistics_lca_frame:
  "gpu (store_statistics self acts e bs cc) = gpu self"
  "infrate (store_statistics self acts e bs cc) = infrate self"
  "niter (store_statistics self acts e bs cc) = niter self"
  "min_thresh (store_statistics self acts e bs cc) = min_thresh self"
  "adapt (store_statistics self acts e bs cc) = adapt self"
  "softthresh (store_statistics self acts e bs cc) = softthresh self"
  "tolerance (store_statistics self acts e bs cc) = tolerance self"
  "max_iter (store_statistics self acts e bs cc) = max_iter self"
  by (simp_all add: store_statistics_def Let_def)

lemma learn_frame:
  "paramfile (fst (learn self X acts nrm)) = paramfile self"
  by (simp add: learn_def split_beta Let_def)

lemma checkpoint_skip:
  "\<not> ((trial mod 1000 = 0 \<or> trial + 1 = ntrials) \<and> trial \<noteq> 0)
     \<Longrightarrow> checkpoint self trial ntrials = Inr (self, [])"
  by (auto simp: checkpoint_def)

lemma checkpoint_no_file:
  "(trial mod 1000 = 0 \<or> trial + 1 = ntrials) \<and> trial \<noteq> 0 \<Longrightarrow> paramfile self = None
     \<Longrightarrow> checkpoint self trial ntrials = Inr (self, [Failed Concat_None])"
  by (simp add: checkpoint_def)

lemma checkpoint_file:
  "(trial mod 1000 = 0 \<or> trial + 1 = ntrials) \<and> trial \<noteq> 0 \<Longrightarrow> paramfile self = Some f
     \<Longrightarrow> checkpoint self trial ntrials = Inl Not_implemented"
  by (simp add: checkpoint_def save_def py_or_str_def get_param_list_def bind_err_def)

lemma checkpoint_raises:
  "checkpoint self trial ntrials = Inl e \<Longrightarrow> class_of e \<noteq> ValueError \<and> class_of e \<noteq> TypeError"
  by (auto simp: checkpoint_def split: if_splits option.splits sum.splits prod.splits)

lemma run_trial_unfold:
  assumes "infer infer_gpu fuel self (rand_stim stims trial bs) None None = Some (Inr (acts, um, th))"
  shows "run_trial infer_gpu fuel stims ntrials bs rd nrm trial (self, lg) =
     (case checkpoint (store_statistics (fst (learn self (rand_stim stims trial bs) acts nrm)) acts
              (snd (learn self (rand_stim stims trial bs) acts nrm)) (Some bs) True) trial ntrials of
        Inl e \<Rightarrow> Some (Inl e)
      | Inr (self3, printed) \<Rightarrow>
          Some (Inr (case rd of None \<Rightarrow> self3 | Some factor \<Rightarrow> lca_adjust_rates self3 factor,
                     (if trial mod 50 = 0 then lg @ [Trial trial] else lg) @ printed)))"
  using assms by (auto simp: run_trial_def Let_def split_beta split: sum.splits)

lemmas infer_defs = infer_def infer_cpu_def py_or_fl_def py_or_int_def continue_cond_def fgt_def

lemma ex_file_infer:
  "infer no_gpu 1 ex_file ex_X None None
     = Some (Inr ([[Fin 0], [Fin 0]], [[Fin (5991/1000000)], [Fin (5991/2000000)]],
                  [Fin (1083/1600)]))"
  by (simp add: infer_defs ex_file_def ex_lca2_def ex_X_def ex_lca_defs lca_defs array_defs
      Let_def upt_rec)

lemma ex_file_learn:
  "fst (learn ex_file ex_X [[Fin 0], [Fin 0]] True) = ex_file"
  by (simp add: learn_def learn_update_def normmatrix_def ex_file_def ex_lca2_def ex_X_def
      ex_lca_defs array_defs Let_def)


lemma ex_stims_simps:
  "rand_stim ex_stims k n = ex_X" "py_or_nat None (stim_batch_size ex_stims) = 1"
  by (simp_all add: ex_stims_def py_or_nat_def)

lemma ex_file_trial0:
  "run_trial no_gpu 1 ex_stims 2 1 None True 0 (ex_file, [])
     = Some (Inr (store_statistics ex_file [[Fin 0], [Fin 0]]
                    (snd (learn ex_file ex_X [[Fin 0], [Fin 0]] True)) (Some 1) True, [Trial 0]))"
proof -
  have i0: "infer no_gpu 1 ex_file (rand_stim ex_stims 0 1) None None
     = Some (Inr ([[Fin 0], [Fin 0]], [[Fin (5991/1000000)], [Fin (5991/2000000)]],
                  [Fin (1083/1600)]))"
    by (simp only: ex_stims_simps ex_file_infer)
  show ?thesis
    by (subst run_trial_unfold [OF i0]) (simp add: checkpoint_skip ex_stims_simps ex_file_learn)
qed

lemma ex_file_infer1:
  "infer no_gpu 1 (store_statistics ex_file acts e bs cc) ex_X None None
     = Some (Inr ([[Fin 0], [Fin 0]], [[Fin (5991/1000000)], [Fin (5991/2000000)]],
                  [Fin (1083/1600)]))"
  by (simp add: infer_defs lca_defs array_defs store_statistics_frame store_statistics_lca_frame
      ex_file_def ex_lca2_def ex_X_def ex_lca_defs Let_def upt_rec)

lemma ex_lca2_infer:
  "infer no_gpu 1 ex_lca2 ex_X None None
     = Some (Inr ([[Fin 0], [Fin 0]], [[Fin (5991/1000000)], [Fin (5991/2000000)]],
                  [Fin (1083/1600)]))"
  by (simp add: infer_defs ex_lca2_def ex_X_def ex_lca_defs lca_defs array_defs
      Let_def upt_rec)

lemma set_insert_idx: "set (insert_idx v i js) = insert i (set js)"
  by (induction js) auto

lemma length_insert_idx: "length (insert_idx v i js) = Suc (length js)"
  by (induction js) auto

lemma set_foldr_insert_idx: "set (foldr (insert_idx v) xs acc) = set xs \<union> set acc"
  by (induction xs) (auto simp: set_insert_idx)

lemma set_argsort: "set (argsort v) = {0..<length v}"
  by (simp add: argsort_def set_foldr_insert_idx)

lemma length_foldr_insert_idx: "length (foldr (insert_idx v) xs acc) = length xs + length acc"
  by (induction xs) (auto simp: length_insert_idx)

lemma length_argsort: "length (argsort v) = length v"
  by (simp add: argsort_def length_foldr_insert_idx)

section \<open>The claims\<close>

subsection \<open>Normalisation of the dictionary\<close>

text \<open>
  C1 as stated (after \<open>learn(X, S, normalize=True)\<close> every row of the dictionary has unit
  norm, for every dictionary, data batch and coefficient batch, provided no row has norm
  zero before the normalisation) fails. With one unit, dictionary \<open>(1)\<close>, the stimulus
  \<open>0\<close> and the coefficient \<open>inf\<close>, the residual is \<open>-inf\<close>, the gradient step gives
  \<open>-inf\<close> and the orthogonality term \<open>-inf + inf = nan\<close>: the row before the
  normalisation is \<open>(nan)\<close>, whose norm is \<open>nan\<close> and not zero, and the row that
  \<open>learn\<close> stores is \<open>(nan)\<close>, whose norm is not one.
\<close>

theorem infinite_coefficient_counterexample:
  "fst (learn_update ex_one [[Fin 0]] [[PInf]]) = [[NaN]]
   \<and> row_norm [NaN] = NaN
   \<and> list_all (\<lambda>r. row_norm r \<noteq> Fin 0) (fst (learn_update ex_one [[Fin 0]] [[PInf]]))
   \<and> Q (fst (learn ex_one [[Fin 0]] [[PInf]] True)) = [[NaN]]
   \<and> \<not> list_all (\<lambda>r. row_norm r = Fin 1) (Q (fst (learn ex_one [[Fin 0]] [[PInf]] True)))"
  by (simp add: learn_def learn_update_def normmatrix_def row_norm_def ex_one_def
      ex_lca_defs Let_def array_defs)

text \<open>
  C1, amended. \<open>learn(X, S, normalize=True)\<close> stores \<open>normmatrix.dot(A)\<close>, where \<open>A\<close>
  is the dictionary after the gradient step and the orthogonality term. For every \<open>A\<close>
  of \<open>N\<close> rows of \<open>D \<le> 2^20\<close> entries, each zero or finite with a magnitude between
  \<open>2^-500\<close> and \<open>2^500\<close>, and with no row of norm zero, the result has \<open>N\<close> rows of
  \<open>D\<close> entries, row \<open>i\<close> is row \<open>i\<close> of \<open>A\<close> times the reciprocal of its norm, and
  its Euclidean norm is one. The norm is exactly one because the arithmetic of the model
  is exact. The bounds on the entries are those under which no square and no sum of
  squares overflows or underflows in \<open>float64\<close>, where the computed norm differs from
  one by rounding only; outside them, and for entries that are not finite, the rows need
  not have unit norm.
\<close>

theorem normalized_rows_unit:
  assumes "fmat N D A" and "D \<le> 2 ^ 20"
    and "list_all (list_all sq_safe) A"
    and "list_all (\<lambda>r. row_norm r \<noteq> Fin 0) A"
  shows "learn self data coeffs True =
           (self\<lparr>Q := dot (normmatrix (fst (learn_update self data coeffs)))
                        (fst (learn_update self data coeffs))\<rparr>,
            mean_all (msq (snd (learn_update self data coeffs))))
    \<and> length (dot (normmatrix A) A) = N
    \<and> (\<forall>i<N. dot (normmatrix A) A ! i = map (fmul (fdiv (Fin 1) (row_norm (A ! i)))) (A ! i)
            \<and> length (dot (normmatrix A) A ! i) = D
            \<and> row_norm (dot (normmatrix A) A ! i) = Fin 1)"
proof -
  have len: "length (dot (normmatrix A) A) = N"
    using assms(1) by (simp add: dot_def normmatrix_def diag_def sum_axis1_def mmul_def fmat_def)
  have lr: "length (A ! i) = D" if "i < N" for i
    using assms(1) that by (simp add: fmat_def list_all_length)
  have "dot (normmatrix A) A ! i = map (fmul (fdiv (Fin 1) (row_norm (A ! i)))) (A ! i)
      \<and> length (dot (normmatrix A) A ! i) = D
      \<and> row_norm (dot (normmatrix A) A ! i) = Fin 1" if "i < N" for i
    using normalized_row [OF assms(1) that assms(4)] lr [OF that] by simp
  then show ?thesis
    using len learn_normalized by blast
qed

theorem normalized_rows_unit_witness:
  "fst (learn_update ex_learner0 [[Fin 2], [Fin 0]] [[Fin 1], [Fin 0]])
     = [[Fin 2, Fin 0], [Fin 0, Fin 1]]
   \<and> row_norm [Fin 2, Fin 0] = Fin 2 \<and> row_norm [Fin 0, Fin 1] = Fin 1
   \<and> Q (fst (learn ex_learner0 [[Fin 2], [Fin 0]] [[Fin 1], [Fin 0]] True))
     = [[Fin 1, Fin 0], [Fin 0, Fin 1]]
   \<and> length (dot (normmatrix [[Fin 2, Fin 0], [Fin 0, Fin 1]]) [[Fin 2, Fin 0], [Fin 0, Fin 1]]) = 2
   \<and> dot (normmatrix [[Fin 2, Fin 0], [Fin 0, Fin 1]]) [[Fin 2, Fin 0], [Fin 0, Fin 1]] ! 0
     = [Fin 1, Fin 0]
   \<and> row_norm (dot (normmatrix [[Fin 2, Fin 0], [Fin 0, Fin 1]]) [[Fin 2, Fin 0], [Fin 0, Fin 1]] ! 0)
     = Fin 1
   \<and> row_norm (dot (normmatrix [[Fin 2, Fin 0], [Fin 0, Fin 1]]) [[Fin 2, Fin 0], [Fin 0, Fin 1]] ! 1)
     = Fin 1"
proof -
  let ?A = "[[Fin 2, Fin 0], [Fin 0, Fin 1]]"
  have upd: "fst (learn_update ex_learner0 [[Fin 2], [Fin 0]] [[Fin 1], [Fin 0]]) = ?A"
    by (simp add: learn_update_def ex_learner0_def ex_learner_def Let_def array_defs)
  have n0: "row_norm [Fin 2, Fin 0] = Fin 2" and n1: "row_norm [Fin 0, Fin 1] = Fin 1"
    using real_sqrt_abs2 [of 2] by (simp_all add: row_norm_def)
  have h1: "fmat 2 2 ?A" by (simp add: fmat_def)
  have h2: "(2::nat) \<le> 2 ^ 20" by simp
  have h3: "list_all (list_all sq_safe) ?A" by simp
  have h4: "list_all (\<lambda>r. row_norm r \<noteq> Fin 0) ?A" by (simp add: n0 n1)
  note inst = normalized_rows_unit [OF h1 h2 h3 h4, of ex_learner0 "[[Fin 2], [Fin 0]]" "[[Fin 1], [Fin 0]]"]
  note rows = inst [THEN conjunct2, THEN conjunct2, rule_format]
  have l: "length (dot (normmatrix ?A) ?A) = 2"
    using inst by blast
  have lt: "0 < (2::nat)" "1 < (2::nat)" by simp_all
  have u0: "row_norm (dot (normmatrix ?A) ?A ! 0) = Fin 1"
    using rows [OF lt(1)] by blast
  have u1: "row_norm (dot (normmatrix ?A) ?A ! 1) = Fin 1"
    using rows [OF lt(2)] by blast
  have "dot (normmatrix ?A) ?A ! 0 = map (fmul (fdiv (Fin 1) (row_norm (?A ! 0)))) (?A ! 0)"
    using rows [OF lt(1)] by blast
  then have r0: "dot (normmatrix ?A) ?A ! 0 = [Fin 1, Fin 0]"
    by (simp add: n0)
  have "dot (normmatrix ?A) ?A ! 1 = map (fmul (fdiv (Fin 1) (row_norm (?A ! 1)))) (?A ! 1)"
    using rows [OF lt(2)] by blast
  then have r1: "dot (normmatrix ?A) ?A ! 1 = [Fin 0, Fin 1]"
    by (simp add: n1)
  have eq: "dot (normmatrix ?A) ?A = [[Fin 1, Fin 0], [Fin 0, Fin 1]]"
    using l r0 r1 by (intro nth_equalityI) (auto simp: less_Suc_eq numeral_2_eq_2)
  from inst have "Q (fst (learn ex_learner0 [[Fin 2], [Fin 0]] [[Fin 1], [Fin 0]] True))
      = dot (normmatrix ?A) ?A"
    by (simp add: upd)
  then show ?thesis
    using upd n0 n1 l r0 u0 u1 eq by simp
qed

text \<open>
  C7 as stated (a row of zero norm makes \<open>learn\<close> raise an error that names the row)
  fails: \<open>learn\<close> has no \<open>raise\<close>. With the identity as dictionary, learning rate
  \<open>1\<close>, the zero stimulus and coefficients \<open>(1, 0)\<close>, the first row is \<open>(0, 0)\<close>
  after the gradient step, and the call returns a dictionary whose first row is
  \<open>(nan, nan)\<close>, with the error \<open>1/2\<close>.
\<close>

theorem learn_zero_row_counterexample:
  "row_norm (fst (learn_update ex_learner0 [[Fin 0], [Fin 0]] [[Fin 1], [Fin 0]]) ! 0) = Fin 0
   \<and> learn ex_learner0 [[Fin 0], [Fin 0]] [[Fin 1], [Fin 0]] True
     = (ex_learner0 \<lparr> Q := [[NaN, NaN], [Fin 0, Fin 1]] \<rparr>, Fin (1/2))"
  by (simp add: learn_def learn_update_def normmatrix_def row_norm_def ex_learner0_def
      ex_learner_def Let_def array_defs)

text \<open>
  C7, amended. When a row of the updated dictionary has norm zero, \<open>learn\<close> with
  normalisation raises nothing: it returns, and every entry of that row of the new
  dictionary is \<open>nan\<close> (the factor \<open>1/0 = inf\<close> times the zero entries). The arrays
  have conforming shapes (\<open>Q\<close> is \<open>N \<times> D\<close>, \<open>X\<close> is \<open>D \<times> B\<close>, \<open>S\<close> is
  \<open>N \<times> B\<close>) and finite entries, and the learning rate and \<open>theta\<close> are finite.
\<close>

theorem learn_zero_row_nan:
  assumes "fmat N D (Q self)" and "fmat D B data" and "fmat N B coeffs"
    and "0 < D" and "0 < B"
    and "isfinite (learnrate self)" and "isfinite (theta self)"
    and "i < N"
    and "row_norm (fst (learn_update self data coeffs) ! i) = Fin 0"
  shows "Q (fst (learn self data coeffs True)) ! i = replicate D NaN"
proof -
  define Q2 where "Q2 = fst (learn_update self data coeffs)"
  have "0 < N" using assms(8) by simp
  with assms(1-7) have A: "fmat N D Q2"
    unfolding Q2_def by (intro fmat_learn_update)
  then have len: "length Q2 = N" and rect: "list_all (\<lambda>r. length r = D) Q2"
    by (simp_all add: fmat_def list_all_iff)
  have "dot (normmatrix Q2) Q2 ! i = replicate D NaN"
    using assms(9) by (intro zero_row_NaN [OF len rect assms(8)]) (simp add: Q2_def)
  then show ?thesis by (simp add: learn_Q Q2_def)
qed

theorem learn_zero_row_nan_witness:
  "row_norm (fst (learn_update ex_learner0 [[Fin 0], [Fin 0]] [[Fin 1], [Fin 0]]) ! 0) = Fin 0
   \<and> Q (fst (learn ex_learner0 [[Fin 0], [Fin 0]] [[Fin 1], [Fin 0]] True)) ! 0
     = replicate 2 NaN"
proof -
  have h1: "fmat 2 2 (Q ex_learner0)"
    by (simp add: fmat_def ex_learner0_def ex_learner_def)
  have h2: "fmat 2 1 [[Fin 0], [Fin 0]]" and h3: "fmat 2 1 [[Fin 1], [Fin 0]]"
    by (simp_all add: fmat_def)
  have h4: "isfinite (learnrate ex_learner0)" and h5: "isfinite (theta ex_learner0)"
    by (simp_all add: ex_learner0_def ex_learner_def)
  have h6: "row_norm (fst (learn_update ex_learner0 [[Fin 0], [Fin 0]] [[Fin 1], [Fin 0]]) ! 0) = Fin 0"
    by (simp add: learn_update_def row_norm_def ex_learner0_def ex_learner_def Let_def array_defs)
  show ?thesis
    using h6 learn_zero_row_nan [OF h1 h2 h3 _ _ h4 h5 _ h6] by simp
qed

subsection \<open>Rate decay\<close>

text \<open>
  C6 as stated (after \<open>adjust_rates\<close> with factor \<open>0.5\<close> both the learning rate and
  \<open>theta\<close> are halved, for the LCA learner in particular) fails for the LCA learner:
  its \<open>adjust_rates\<close> leaves \<open>theta = 0.022\<close> as it is.
\<close>

theorem lca_adjust_rates_counterexample:
  "theta ex_lca = Fin (22/1000)
   \<and> theta (lca_adjust_rates ex_lca (Fin (1/2))) = Fin (22/1000)
   \<and> theta (lca_adjust_rates ex_lca (Fin (1/2))) \<noteq> Fin ((22/1000) / 2)"
  by (simp add: lca_adjust_rates_def ex_lca_def ex_stats_def ex_learner_def
      dict_learner.defs lca_learner.defs)

text \<open>
  C6, amended. After one call of \<open>adjust_rates\<close> with factor \<open>0.5\<close>, a \<open>DictLearner\<close> has
  exactly half its learning rate and half its \<open>theta\<close>; an \<open>LCALearner\<close>, whose class
  overrides the method, has exactly half its learning rate and its \<open>theta\<close> unchanged.
\<close>

theorem adjust_rates_half:
  assumes "learnrate self = Fin a" and "theta self = Fin t"
    and "learnrate lca = Fin b"
  shows "learnrate (adjust_rates self (Fin (1/2))) = Fin (a / 2)
    \<and> theta (adjust_rates self (Fin (1/2))) = Fin (t / 2)
    \<and> learnrate (lca_adjust_rates lca (Fin (1/2))) = Fin (b / 2)
    \<and> theta (lca_adjust_rates lca (Fin (1/2))) = theta lca"
  using assms by (simp add: adjust_rates_def lca_adjust_rates_def Let_def)

theorem adjust_rates_half_witness:
  "learnrate (adjust_rates ex_learner (Fin (1/2))) = Fin (1/4)
    \<and> theta (adjust_rates ex_learner (Fin (1/2))) = Fin (1/2)
    \<and> learnrate (lca_adjust_rates ex_lca (Fin (1/2))) = Fin (1/200)
    \<and> theta (lca_adjust_rates ex_lca (Fin (1/2))) = Fin (22/1000)"
proof -
  have h1: "learnrate ex_learner = Fin (1/2)" and h2: "theta ex_learner = Fin 1"
    by (simp_all add: ex_learner_def)
  have h3: "learnrate ex_lca = Fin (1/100)" and h4: "theta ex_lca = Fin (22/1000)"
    by (simp_all add: ex_lca_def ex_stats_def ex_learner_def dict_learner.defs lca_learner.defs)
  show ?thesis
    using adjust_rates_half [OF h1 h2 h3] h4 by simp
qed

subsection \<open>Sorting the units\<close>

text \<open>
  C8. \<open>DictLearner.sort\<close> indexes both axes of the correlation matrix with the same
  permutation at once, \<open>corrmatrix_ave[sorter, sorter]\<close>: what it stores is the
  sequence of the \<open>N\<close> diagonal entries at the sorted positions, an array of shape
  \<open>(N,)\<close> and no longer one of shape \<open>(N, N)\<close>.
\<close>

theorem sort_corrmatrix_diagonal:
  assumes "corrmatrix_ave self = Arr2 M"
    and "length M = N" and "list_all (\<lambda>r. length r = N) M"
    and "length (Q self) = N" and "length (L0acts self) = N" and "length (L1acts self) = N"
    and "length (L2acts self) = N" and "length (meanacts self) = N"
    and "is_perm N sorter"
  shows "\<exists>self'. sort_method self usages sorter = Inr self'
    \<and> corrmatrix_ave self' = Arr1 (map (\<lambda>i. M ! i ! i) sorter)
    \<and> shape (corrmatrix_ave self') = [N]
    \<and> shape (corrmatrix_ave self) = [N, N]"
proof -
  have idx: "list_all (\<lambda>i. i < N) sorter" and len: "length sorter = N"
    using assms(9) by (simp_all add: is_perm_def)
  have nc: "ncols M = N"
  proof (cases M)
    case Nil
    then show ?thesis using assms(2) by (simp add: ncols_def)
  next
    case (Cons r rs)
    then show ?thesis using assms(3) by (simp add: ncols_def)
  qed
  have cm: "index2 (corrmatrix_ave self) sorter sorter = Inr (Arr1 (map (\<lambda>i. M ! i ! i) sorter))"
    using idx nc assms(1,2) by (simp add: index2_def map2_self)
  show ?thesis
    using idx len nc assms(1-8) cm
    by (simp add: sort_method_def bind_err_def take_idx_def)
qed

theorem sort_corrmatrix_diagonal_witness:
  "is_perm 2 [1, 0]
   \<and> (\<exists>self'. sort_method ex_stats (L0acts ex_stats) [1, 0] = Inr self'
      \<and> corrmatrix_ave self' = Arr1 [Fin 4, Fin 1]
      \<and> shape (corrmatrix_ave self') = [2]
      \<and> shape (corrmatrix_ave ex_stats) = [2, 2])"
proof -
  have h1: "corrmatrix_ave ex_stats = Arr2 [[Fin 1, Fin 2], [Fin 3, Fin 4]]"
    by (simp add: ex_stats_def)
  have h2: "length [[Fin 1, Fin 2], [Fin 3, Fin 4]] = 2"
    and h3: "list_all (\<lambda>r. length r = 2) [[Fin 1, Fin 2], [Fin 3, Fin 4]]"
    by simp_all
  have h4: "length (Q ex_stats) = 2" and h5: "length (L0acts ex_stats) = 2"
    and h6: "length (L1acts ex_stats) = 2" and h7: "length (L2acts ex_stats) = 2"
    and h8: "length (meanacts ex_stats) = 2"
    by (simp_all add: ex_stats_def ex_learner_def)
  have h9: "is_perm 2 [1, 0]"
    by (simp add: is_perm_def)
  show ?thesis
    using h9 sort_corrmatrix_diagonal [OF h1 h2 h3 h4 h5 h6 h7 h8 h9, of "L0acts ex_stats"]
    by simp
qed

subsection \<open>The thresholds of the inference\<close>

text \<open>
  C2 as stated (for every inference call with \<open>min_thresh \<ge> 0\<close> every threshold is at
  least \<open>min_thresh\<close> at initialisation and after every inner iteration, for any
  adaptation factor) fails. A \<open>nan\<close> in the stimulus makes the overlaps \<open>b\<close> and the
  initial threshold \<open>nan\<close>, which is not at least \<open>min_thresh = 1/4\<close>. And with
  \<open>min_thresh = 0\<close>, the adaptation factor \<open>inf\<close> and the zero stimulus, the initial
  threshold is \<open>0\<close>, the first iteration makes it \<open>inf \<sqdot> 0 = nan\<close>, the comparison
  with the floor is false and leaves it, and the call returns the threshold \<open>nan\<close>.
\<close>

theorem nan_threshold_counterexample:
  "fge (min_thresh ex_dyadic) (Fin 0)
   \<and> overlap_b ex_dyadic [[NaN], [Fin 0]] = [[NaN, NaN]]
   \<and> inf_thresh (init_state ex_dyadic [[NaN], [Fin 0]]) = [NaN]
   \<and> \<not> list_all (\<lambda>t. fge t (min_thresh ex_dyadic))
          (inf_thresh (init_state ex_dyadic [[NaN], [Fin 0]]))
   \<and> fge (min_thresh (ex_dyadic \<lparr> min_thresh := Fin 0, adapt := PInf \<rparr>)) (Fin 0)
   \<and> inf_thresh (init_state (ex_dyadic \<lparr> min_thresh := Fin 0, adapt := PInf \<rparr>) [[Fin 0], [Fin 0]])
     = [Fin 0]
   \<and> infer_cpu 1 (ex_dyadic \<lparr> min_thresh := Fin 0, adapt := PInf \<rparr>) [[Fin 0], [Fin 0]] None None
     = Some (Inr ([[Fin 0], [Fin 0]], [[Fin 0], [Fin 0]], [NaN]))
   \<and> \<not> list_all (\<lambda>t. fge t (min_thresh (ex_dyadic \<lparr> min_thresh := Fin 0, adapt := PInf \<rparr>))) [NaN]"
  by (simp add: infer_cpu_def py_or_fl_def py_or_int_def continue_cond_def fgt_def
      ex_dyadic_def ex_lca_defs lca_defs array_defs Let_def)

text \<open>
  C2, amended. With \<open>min_thresh \<ge> 0\<close>: the initial thresholds are those that lines 112
  and 113 compute from the overlaps \<open>b\<close>, one for each stimulus, and each is at least
  \<open>min_thresh\<close> when the overlaps of its stimulus, at least one, hold no \<open>nan\<close>. The
  thresholds after a run \<open>kks\<close> of inner iterations are those of its start, adapted once
  for each iteration, and an adapted threshold is at least \<open>min_thresh\<close> when the
  product of the adaptation factor and the threshold before is not \<open>nan\<close>. That is so
  after every iteration when the adaptation factor and \<open>min_thresh\<close> are finite and the
  thresholds at the start hold no \<open>nan\<close> (and no infinity, if the factor is zero),
  whatever the factor, values of one and more included. The statements are about any
  overlaps \<open>b'\<close> and any thresholds \<open>th\<close>, those that \<open>float64\<close> computes included:
  the comparisons and the maximum are exact there, and a rounded or overflowing product
  of finite values is not \<open>nan\<close>.
\<close>

theorem thresholds_floor:
  assumes "fge (min_thresh self) (Fin 0)"
  shows "inf_thresh (init_state self X) = b_thresh self (overlap_b self X)
    \<and> (\<forall>st'. inner_loop self b c kks st = Inr st' \<longrightarrow>
          inf_thresh st' = (adapt_thresh self ^^ length kks) (inf_thresh st))
    \<and> (list_all (\<lambda>r. r \<noteq> [] \<and> list_all (\<lambda>x. \<not> isnan x) r) b' \<longrightarrow>
          length (b_thresh self b') = length b'
          \<and> list_all (\<lambda>t. fge t (min_thresh self)) (b_thresh self b'))
    \<and> length (adapt_thresh self th) = length th
    \<and> (list_all (\<lambda>t. \<not> isnan (fmul (adapt self) t)) th \<longrightarrow>
          list_all (\<lambda>t. fge t (min_thresh self)) (adapt_thresh self th))
    \<and> (isfinite (adapt self) \<and> isfinite (min_thresh self)
         \<and> list_all (\<lambda>t. \<not> isnan t \<and> (adapt self = Fin 0 \<longrightarrow> isfinite t)) th \<longrightarrow>
          list_all (\<lambda>t. fge t (min_thresh self)) ((adapt_thresh self ^^ Suc k) th))"
proof -
  have m: "\<not> isnan (min_thresh self)"
    using assms by (rule fge_zero_no_nan)
  have 1: "inf_thresh (init_state self X) = b_thresh self (overlap_b self X)"
    by (simp add: init_state_def init_thresh_b)
  have 2: "\<forall>st'. inner_loop self b c kks st = Inr st' \<longrightarrow>
          inf_thresh st' = (adapt_thresh self ^^ length kks) (inf_thresh st)"
    using inner_loop_thresh by blast
  have 3: "list_all (\<lambda>r. r \<noteq> [] \<and> list_all (\<lambda>x. \<not> isnan x) r) b' \<longrightarrow>
          length (b_thresh self b') = length b'
          \<and> list_all (\<lambda>t. fge t (min_thresh self)) (b_thresh self b')"
    using b_thresh_floor [OF m] by (simp add: b_thresh_def mean_axis1_def)
  have 4: "length (adapt_thresh self th) = length th"
    by (simp add: adapt_thresh_def)
  have 5: "list_all (\<lambda>t. \<not> isnan (fmul (adapt self) t)) th \<longrightarrow>
          list_all (\<lambda>t. fge t (min_thresh self)) (adapt_thresh self th)"
    using adapt_thresh_floor [OF m] by blast
  have 6: "list_all (\<lambda>t. fge t (min_thresh self)) ((adapt_thresh self ^^ Suc k) th)"
    if h: "isfinite (adapt self)" "isfinite (min_thresh self)"
      "list_all (\<lambda>t. \<not> isnan t \<and> (adapt self = Fin 0 \<longrightarrow> isfinite t)) th"
  proof -
    obtain a m' where am: "adapt self = Fin a" "min_thresh self = Fin m'"
      using h(1,2) by (auto simp: isfinite_iff)
    have "list_all (\<lambda>t. \<not> isnan t \<and> (a = 0 \<longrightarrow> isfinite t)) th"
      using h(3) am(1) by simp
    with am show ?thesis by (rule adapt_thresh_iter_floor)
  qed
  show ?thesis
    using 1 2 3 4 5 6 by blast
qed

theorem thresholds_floor_witness:
  "fge (min_thresh ex_dyadic) (Fin 0)
   \<and> overlap_b ex_dyadic ex_X = [[Fin 1, Fin (1/2)]]
   \<and> inf_thresh (init_state ex_dyadic ex_X) = [Fin (3/4)]
   \<and> b_thresh ex_dyadic [[Fin 1, Fin (1/2)]] = [Fin (3/4)]
   \<and> list_all (\<lambda>t. fge t (min_thresh ex_dyadic)) (b_thresh ex_dyadic [[Fin 1, Fin (1/2)]])
   \<and> inner_loop ex_dyadic (overlap_b ex_dyadic ex_X) (overlap_c ex_dyadic) [0, 1]
        (init_state ex_dyadic ex_X)
     = Inr \<lparr> inf_u = [[Fin 1, Fin (1/2)]], inf_s = [[Fin 1, Fin (1/2)]], inf_thresh = [Fin (1/4)] \<rparr>
   \<and> (adapt_thresh ex_dyadic ^^ 2) [Fin (3/4)] = [Fin (1/4)]
   \<and> adapt_thresh ex_dyadic [Fin (3/4)] = [Fin (3/8)]
   \<and> adapt_thresh ex_dyadic [Fin (3/8)] = [Fin (1/4)]
   \<and> list_all (\<lambda>t. fge t (min_thresh ex_dyadic)) (adapt_thresh ex_dyadic [Fin (3/8)])
   \<and> list_all (\<lambda>t. fge t (min_thresh ex_dyadic)) ((adapt_thresh ex_dyadic ^^ 2) [Fin (3/4)])"
proof -
  let ?b = "overlap_b ex_dyadic ex_X" and ?c = "overlap_c ex_dyadic"
  let ?st2 = "\<lparr> inf_u = [[Fin 1, Fin (1/2)]], inf_s = [[Fin 1, Fin (1/2)]], inf_thresh = [Fin (1/4)] \<rparr>"
  have h: "fge (min_thresh ex_dyadic) (Fin 0)"
    by (simp add: ex_dyadic_def ex_lca_defs)
  have par: "adapt ex_dyadic = Fin (1/2)" "min_thresh ex_dyadic = Fin (1/4)"
    by (simp_all add: ex_dyadic_def ex_lca_defs)
  have e1: "?b = [[Fin 1, Fin (1/2)]]"
    by (simp add: ex_dyadic_def ex_X_def ex_lca_defs lca_defs array_defs)
  have e2: "b_thresh ex_dyadic [[Fin 1, Fin (1/2)]] = [Fin (3/4)]"
    by (simp add: b_thresh_def mean_axis1_def mean_v_def par)
  have e3: "inner_loop ex_dyadic ?b ?c [0, 1] (init_state ex_dyadic ex_X) = Inr ?st2"
    by (simp add: ex_dyadic_def ex_X_def ex_lca_defs lca_defs array_defs Let_def)
  have e4: "adapt_thresh ex_dyadic [Fin (3/4)] = [Fin (3/8)]"
    and e5: "adapt_thresh ex_dyadic [Fin (3/8)] = [Fin (1/4)]"
    by (simp_all add: adapt_thresh_def par Let_def)
  have e6: "(adapt_thresh ex_dyadic ^^ 2) [Fin (3/4)] = [Fin (1/4)]"
    by (simp add: numeral_2_eq_2 e4 e5)
  have b': "list_all (\<lambda>r. r \<noteq> [] \<and> list_all (\<lambda>x. \<not> isnan x) r) [[Fin 1, Fin (1/2)]]"
    by simp
  have th: "list_all (\<lambda>t. \<not> isnan (fmul (adapt ex_dyadic) t)) [Fin (3/8)]"
    by (simp add: par)
  have it: "isfinite (adapt ex_dyadic) \<and> isfinite (min_thresh ex_dyadic)
      \<and> list_all (\<lambda>t. \<not> isnan t \<and> (adapt ex_dyadic = Fin 0 \<longrightarrow> isfinite t)) [Fin (3/4)]"
    by (simp add: par)
  note inst = thresholds_floor [OF h, of ex_X ?b ?c "[0, 1]" "init_state ex_dyadic ex_X"
      "[[Fin 1, Fin (1/2)]]" _ 1]
  have i1: "inf_thresh (init_state ex_dyadic ex_X) = [Fin (3/4)]"
    using inst [of "[Fin (3/8)]"] by (simp only: e1 e2)
  have i3: "list_all (\<lambda>t. fge t (min_thresh ex_dyadic)) (b_thresh ex_dyadic [[Fin 1, Fin (1/2)]])"
    using inst [of "[Fin (3/8)]"] b' by blast
  have i5: "list_all (\<lambda>t. fge t (min_thresh ex_dyadic)) (adapt_thresh ex_dyadic [Fin (3/8)])"
    using inst [of "[Fin (3/8)]"] th by blast
  have i6: "list_all (\<lambda>t. fge t (min_thresh ex_dyadic)) ((adapt_thresh ex_dyadic ^^ Suc 1) [Fin (3/4)])"
    using inst [of "[Fin (3/4)]"] it by blast
  have s2: "Suc 1 = 2" by simp
  show ?thesis
    using h e1 i1 e2 i3 e3 e6 e4 e5 i5 i6 [unfolded s2] by (simp only: simp_thms)
qed

text \<open>
  C3 as stated (at a drive whose magnitude equals the threshold exactly, hard mode
  yields zero) fails. With one unit, dictionary \<open>(1)\<close>, stimulus \<open>(1)\<close> and inference
  rate \<open>1\<close>, the first iteration has the threshold \<open>1\<close> and gives \<open>u = 1\<close>; the learner
  is in hard mode and the output is \<open>s = 1\<close>.
\<close>

theorem hard_threshold_counterexample:
  "softthresh ex_unit = False
   \<and> inf_thresh (init_state ex_unit [[Fin 1]]) = [Fin 1]
   \<and> lca_step ex_unit (overlap_b ex_unit [[Fin 1]]) (overlap_c ex_unit) 0
        (init_state ex_unit [[Fin 1]])
     = Inr \<lparr> inf_u = [[Fin 1]], inf_s = [[Fin 1]], inf_thresh = [Fin (19/20)] \<rparr>"
  by (simp add: ex_unit_def ex_one_def ex_lca_defs lca_defs array_defs Let_def)

text \<open>
  C3, amended. In every inner iteration, for a finite drive \<open>x\<close> and a finite threshold
  \<open>\<theta>\<close> of its stimulus, the output is \<open>sign(x) \<sqdot> max(0, |x| - \<theta>)\<close> in soft mode; in
  hard mode it is zero where \<open>|x| < \<theta>\<close> and \<open>x\<close> elsewhere. At \<open>|x| = \<theta>\<close> soft mode
  yields zero and hard mode yields \<open>x\<close> unchanged.
\<close>

theorem thresholding_entry:
  assumes "lca_step self b c kk st = Inr st'"
    and "i < length (inf_u st')" and "i < length (inf_thresh st)"
    and "j < length (inf_u st' ! i)"
    and "inf_u st' ! i ! j = Fin x" and "inf_thresh st ! i = Fin \<theta>"
  shows "inf_s st' ! i ! j =
      (if softthresh self then Fin (sgn x * max 0 (\<bar>x\<bar> - \<theta>))
       else if \<bar>x\<bar> < \<theta> then Fin 0 else Fin x)
    \<and> (\<bar>x\<bar> = \<theta> \<longrightarrow> inf_s st' ! i ! j = (if softthresh self then Fin 0 else Fin x))"
proof -
  have s: "inf_s st' = apply_thresh (softthresh self) (inf_u st') (inf_thresh st)"
    using assms(1) by (auto simp: lca_step_def Let_def split: if_splits)
  have "inf_s st' ! i ! j =
      (if softthresh self then soft_threshold (Fin x) (Fin \<theta>) else hard_threshold (Fin x) (Fin \<theta>))"
    using assms(2-6) by (simp add: s apply_thresh_def)
  then show ?thesis
    by (auto simp: soft_threshold_def hard_threshold_def fsub_def max_def)
qed

theorem thresholding_entry_witness:
  "lca_step ex_unit (overlap_b ex_unit [[Fin 1]]) (overlap_c ex_unit) 0
        (init_state ex_unit [[Fin 1]])
     = Inr \<lparr> inf_u = [[Fin 1]], inf_s = [[Fin 1]], inf_thresh = [Fin (19/20)] \<rparr>
   \<and> inf_thresh (init_state ex_unit [[Fin 1]]) ! 0 = Fin 1
   \<and> inf_s \<lparr> inf_u = [[Fin 1]], inf_s = [[Fin 1]], inf_thresh = [Fin (19/20)] \<rparr> ! 0 ! 0
     = (if softthresh ex_unit then Fin 0 else Fin 1)"
proof -
  have h1: "lca_step ex_unit (overlap_b ex_unit [[Fin 1]]) (overlap_c ex_unit) 0
        (init_state ex_unit [[Fin 1]])
     = Inr \<lparr> inf_u = [[Fin 1]], inf_s = [[Fin 1]], inf_thresh = [Fin (19/20)] \<rparr>"
    by (simp add: ex_unit_def ex_one_def ex_lca_defs lca_defs array_defs Let_def)
  have h2: "inf_thresh (init_state ex_unit [[Fin 1]]) ! 0 = Fin 1"
    and h3: "0 < length (inf_thresh (init_state ex_unit [[Fin 1]]))"
    by (simp_all add: ex_unit_def ex_one_def ex_lca_defs lca_defs array_defs)
  from thresholding_entry [OF h1 _ h3 _ _ h2, of 0 1] h1 h2
  show ?thesis by simp
qed

subsection \<open>Divergence\<close>

text \<open>
  C4 as stated (a non-finite entry of \<open>u\<close>, infinite or \<open>nan\<close>, makes \<open>infer_cpu\<close> raise,
  and no non-finite coefficients are returned) fails for infinite entries: the test is
  \<open>np.isnan\<close>. With one unit, dictionary \<open>(1)\<close>, blocks of one iteration and the
  stimulus \<open>inf\<close>, the first iteration gives \<open>u = inf\<close>, the error of the block is
  \<open>nan\<close>, which is not above the tolerance, and the call returns the coefficient \<open>inf\<close>.
\<close>

theorem infinite_state_counterexample:
  "u_update ex_one (overlap_b ex_one [[PInf]]) (overlap_c ex_one) (init_state ex_one [[PInf]])
     = [[PInf]]
   \<and> infer_cpu 1 ex_one [[PInf]] None None = Some (Inr ([[PInf]], [[PInf]], [PInf]))"
  by (simp add: infer_cpu_def py_or_fl_def py_or_int_def continue_cond_def fgt_def
      ex_one_def ex_lca_defs lca_defs array_defs Let_def)

text \<open>
  C4, amended. If, in a block of inner iterations, the iterations before \<open>kk\<close> pass and
  the update of iteration \<open>kk\<close> leaves a \<open>nan\<close> in \<open>u\<close>, the call raises the error that
  carries \<open>kk\<close>, the index within the block, and returns nothing else; the \<open>u\<close> that a
  call returns holds no \<open>nan\<close>. Infinite entries are not looked for.
\<close>

theorem nan_aborts_inference:
  assumes "continue_cond tol cap err k"
    and "[0..<niter self] = ks @ kk # kks"
    and "inner_loop self b c ks st = Inr st1"
    and "list_ex isnan (concat (u_update self b c st1))"
  shows "outer_loop (Suc fuel) self X b c tol cap err k st = Some (Inl (Blew_up kk))
    \<and> (\<forall>acts um th. infer_cpu fuel' self X' tolerance_arg max_iter_arg = Some (Inr (acts, um, th))
          \<longrightarrow> (\<exists>st' :: inf_state. um = mT (inf_u st') \<and> \<not> list_ex isnan (concat (inf_u st'))))"
proof -
  have "lca_step self b c kk st1 = Inl (Blew_up kk)"
    using assms(4) by (rule lca_step_nan)
  then have "block self b c st = Inl (Blew_up kk)"
    using assms(2,3) by (simp add: block_def inner_loop_append)
  then have 1: "outer_loop (Suc fuel) self X b c tol cap err k st = Some (Inl (Blew_up kk))"
    using assms(1) by simp
  have 2: "\<exists>st' :: inf_state. um = mT (inf_u st') \<and> \<not> list_ex isnan (concat (inf_u st'))"
    if r: "infer_cpu fuel' self X' tolerance_arg max_iter_arg = Some (Inr (acts, um, th))"
    for acts um th
  proof -
    define tol' where "tol' = py_or_fl tolerance_arg (tolerance self)"
    define cap' where "cap' = py_or_int max_iter_arg (max_iter self)"
    obtain st' where st': "outer_loop fuel' self X' (overlap_b self X') (overlap_c self) tol' cap'
        (fadd tol' (Fin 1)) 0 (init_state self X') = Some (Inr st')" "um = mT (inf_u st')"
      using r by (auto simp: infer_cpu_def Let_def tol'_def cap'_def split: option.splits sum.splits)
    have "\<not> list_ex isnan (concat (inf_u (init_state self X')))"
      by (auto simp: init_state_def zeros_def list_ex_iff)
    from outer_loop_no_nan [OF st'(1) this] have "\<not> list_ex isnan (concat (inf_u st'))" .
    with st'(2) show ?thesis by blast
  qed
  show ?thesis using 1 2 by blast
qed

theorem nan_aborts_inference_witness:
  "inner_loop ex_two (overlap_b ex_two [[PInf]]) (overlap_c ex_two) [0] (init_state ex_two [[PInf]])
     = Inr \<lparr> inf_u = [[PInf]], inf_s = [[PInf]], inf_thresh = [PInf] \<rparr>
   \<and> u_update ex_two (overlap_b ex_two [[PInf]]) (overlap_c ex_two)
        \<lparr> inf_u = [[PInf]], inf_s = [[PInf]], inf_thresh = [PInf] \<rparr> = [[NaN]]
   \<and> outer_loop 1 ex_two [[PInf]] (overlap_b ex_two [[PInf]]) (overlap_c ex_two)
        (Fin (1/100)) (Some 4) (Fin (101/100)) 0 (init_state ex_two [[PInf]])
     = Some (Inl (Blew_up 1))
   \<and> infer_cpu 1 ex_two [[PInf]] None None = Some (Inl (Blew_up 1))"
proof -
  have h1: "continue_cond (Fin (1/100)) (Some 4) (Fin (101/100)) 0"
    by (simp add: continue_cond_def fgt_def)
  have h2: "[0..<niter ex_two] = [0] @ 1 # []"
    by (simp add: ex_two_def ex_one_def ex_lca_defs upt_rec)
  have h3: "inner_loop ex_two (overlap_b ex_two [[PInf]]) (overlap_c ex_two) [0]
      (init_state ex_two [[PInf]])
     = Inr \<lparr> inf_u = [[PInf]], inf_s = [[PInf]], inf_thresh = [PInf] \<rparr>"
    by (simp add: ex_two_def ex_one_def ex_lca_defs lca_defs array_defs Let_def)
  have e4: "u_update ex_two (overlap_b ex_two [[PInf]]) (overlap_c ex_two)
        \<lparr> inf_u = [[PInf]], inf_s = [[PInf]], inf_thresh = [PInf] \<rparr> = [[NaN]]"
    by (simp add: ex_two_def ex_one_def ex_lca_defs lca_defs array_defs Let_def)
  have h4: "list_ex isnan (concat (u_update ex_two (overlap_b ex_two [[PInf]]) (overlap_c ex_two)
        \<lparr> inf_u = [[PInf]], inf_s = [[PInf]], inf_thresh = [PInf] \<rparr>))"
    unfolding e4 by simp
  have e5: "infer_cpu 1 ex_two [[PInf]] None None = Some (Inl (Blew_up 1))"
    by (simp add: infer_cpu_def py_or_fl_def py_or_int_def continue_cond_def fgt_def
        ex_two_def ex_one_def ex_lca_defs lca_defs array_defs Let_def upt_rec)
  from nan_aborts_inference [OF h1 h2 h3 h4, of 0 "[[PInf]]" 0 "[[PInf]]" None None] h3 e4 e5
  show ?thesis by (simp del: outer_loop.simps)
qed

subsection \<open>The outer loop\<close>

text \<open>
  C5 as stated (after each block the error is computed and the block is repeated while
  it exceeds the tolerance and fewer than \<open>max_iter\<close> blocks have run; under the
  sentinel \<open>None\<close> the loop repeats until the error is at most the tolerance) fails
  where the error is \<open>nan\<close>: the loop goes on while \<open>error > tolerance\<close>, which is
  false for \<open>nan\<close>. With one unit, dictionary \<open>(1)\<close>, \<open>max_iter = None\<close> and the
  stimulus \<open>inf\<close>, the first block leaves \<open>s = inf\<close>, the error is \<open>nan\<close>, and the
  call returns after that block although the error is not at most the tolerance
  \<open>1/100\<close>.
\<close>

theorem nan_error_counterexample:
  "max_iter (ex_one \<lparr> max_iter := None \<rparr>) = None
   \<and> tolerance (ex_one \<lparr> max_iter := None \<rparr>) = Fin (1/100)
   \<and> infer_cpu 0 (ex_one \<lparr> max_iter := None \<rparr>) [[PInf]] None None = None
   \<and> infer_cpu 1 (ex_one \<lparr> max_iter := None \<rparr>) [[PInf]] None None
     = Some (Inr ([[PInf]], [[PInf]], [PInf]))
   \<and> mse (ex_one \<lparr> max_iter := None \<rparr>) [[PInf]]
        \<lparr> inf_u = [[PInf]], inf_s = [[PInf]], inf_thresh = [PInf] \<rparr> = NaN
   \<and> \<not> fge (Fin (1/100)) NaN"
  by (simp add: infer_cpu_def py_or_fl_def py_or_int_def continue_cond_def fgt_def
      ex_one_def ex_lca_defs lca_defs array_defs Let_def)

text \<open>
  C5, amended. After each block of \<open>niter\<close> inner iterations the mean squared
  reconstruction error is computed. The loop goes on exactly when the error is above the
  tolerance and fewer than \<open>max_iter\<close> blocks have run, or \<open>max_iter\<close> is \<open>None\<close>; it
  ends when the error is not above the tolerance, that is at most the tolerance, or
  \<open>nan\<close>. A call that returns after \<open>j\<close> blocks returns the state that \<open>j \<sqdot> niter\<close>
  consecutive inner iterations reach from the initial state: \<open>u\<close>, \<open>s\<close> and the
  thresholds carry over from block to block. With a cap \<open>m\<close> the loop ends within
  \<open>m\<close> blocks, whatever the fuel beyond them. The cap is the argument \<open>max_iter\<close>, or
  the learner's \<open>max_iter\<close> when the argument is \<open>None\<close> or zero; a learner's
  \<open>max_iter\<close> of zero runs no block, and \<open>None\<close> sets no cap.

  On \<open>ex_dyadic\<close> and \<open>ex_X\<close> the error is \<open>1/8\<close> after the first block and \<open>0\<close> after
  the second, for a tolerance of \<open>1/64\<close>. Without a cap the call returns after the
  second block, when the tolerance is met, and not after the first; the second block
  starts from the threshold \<open>3/8\<close> that the first has left. With the cap \<open>1\<close>, as
  argument or as the learner's, it returns after the first block, the error still above
  the tolerance; an argument of \<open>5\<close> overrides the learner's \<open>1\<close>, and an argument of
  zero leaves the learner's \<open>None\<close> in force. The call on \<open>ex_nocap\<close> returns for no
  amount of fuel.
\<close>

theorem outer_loop_repeats:
  "(continue_cond tol cap err k \<longleftrightarrow> fgt err tol \<and> (cap = None \<or> (\<exists>m. cap = Some m \<and> k < m)))
   \<and> (\<not> fgt err tol \<longleftrightarrow> fge tol err \<or> isnan err \<or> isnan tol)
   \<and> (\<forall>st'. outer_loop fuel self X b c tol cap err k st = Some (Inr st') \<longrightarrow>
        (\<exists>j\<le>fuel. inner_loop self b c (concat (replicate j [0..<niter self])) st = Inr st'
           \<and> (if j = 0 then \<not> continue_cond tol cap err k
              else continue_cond tol cap err k
                \<and> \<not> continue_cond tol cap (mse self X st') (k + int j)
                \<and> (\<forall>m. cap = Some m \<longrightarrow> k + int j \<le> m))))
   \<and> (\<forall>m. cap = Some m \<longrightarrow>
        (\<exists>r. \<forall>n\<ge>nat (m - k). outer_loop n self X b c tol cap err k st = Some r))
   \<and> mse ex_dyadic ex_X
        \<lparr> inf_u = [[Fin 1, Fin (1/2)]], inf_s = [[Fin 1, Fin 0]], inf_thresh = [Fin (3/8)] \<rparr>
     = Fin (1/8)
   \<and> mse ex_dyadic ex_X
        \<lparr> inf_u = [[Fin 1, Fin (1/2)]], inf_s = [[Fin 1, Fin (1/2)]], inf_thresh = [Fin (1/4)] \<rparr>
     = Fin 0
   \<and> infer_cpu 1 ex_dyadic ex_X None None = None
   \<and> (\<forall>n. infer_cpu (Suc (Suc n)) ex_dyadic ex_X None None
          = Some (Inr ([[Fin 1], [Fin (1/2)]], [[Fin 1], [Fin (1/2)]], [Fin (1/4)])))
   \<and> (\<forall>n. infer_cpu (Suc n) ex_dyadic ex_X None (Some 1)
          = Some (Inr ([[Fin 1], [Fin 0]], [[Fin 1], [Fin (1/2)]], [Fin (3/8)])))
   \<and> (\<forall>n. infer_cpu (Suc n) (ex_dyadic \<lparr> max_iter := Some 1 \<rparr>) ex_X None None
          = Some (Inr ([[Fin 1], [Fin 0]], [[Fin 1], [Fin (1/2)]], [Fin (3/8)])))
   \<and> (\<forall>n. infer_cpu (Suc (Suc n)) (ex_dyadic \<lparr> max_iter := Some 1 \<rparr>) ex_X None (Some 5)
          = Some (Inr ([[Fin 1], [Fin (1/2)]], [[Fin 1], [Fin (1/2)]], [Fin (1/4)])))
   \<and> (\<forall>n. infer_cpu n (ex_dyadic \<lparr> max_iter := Some 0 \<rparr>) ex_X None None
          = Some (Inr ([[Fin 0], [Fin 0]], [[Fin 0], [Fin 0]], [Fin (3/4)])))
   \<and> (\<forall>n. infer_cpu (Suc (Suc n)) ex_dyadic ex_X None (Some 0)
          = Some (Inr ([[Fin 1], [Fin (1/2)]], [[Fin 1], [Fin (1/2)]], [Fin (1/4)])))
   \<and> (\<forall>n. infer_cpu n ex_nocap ex_X None None = None)
   \<and> (\<forall>n. infer_cpu n ex_nocap ex_X None (Some 0) = None)"
proof -
  have 1: "continue_cond tol cap err k \<longleftrightarrow> fgt err tol \<and> (cap = None \<or> (\<exists>m. cap = Some m \<and> k < m))"
    by (cases cap) (simp_all add: continue_cond_def)
  have 2: "\<not> fgt err tol \<longleftrightarrow> fge tol err \<or> isnan err \<or> isnan tol"
    by (rule not_fgt_iff)
  have 3: "\<forall>st'. outer_loop fuel self X b c tol cap err k st = Some (Inr st') \<longrightarrow>
        (\<exists>j\<le>fuel. inner_loop self b c (concat (replicate j [0..<niter self])) st = Inr st'
           \<and> (if j = 0 then \<not> continue_cond tol cap err k
              else continue_cond tol cap err k
                \<and> \<not> continue_cond tol cap (mse self X st') (k + int j)
                \<and> (\<forall>m. cap = Some m \<longrightarrow> k + int j \<le> m)))"
    using outer_loop_blocks by blast
  have 4: "\<forall>m. cap = Some m \<longrightarrow>
        (\<exists>r. \<forall>n\<ge>nat (m - k). outer_loop n self X b c tol cap err k st = Some r)"
    using outer_loop_capped_all by blast
  note two = dy_two_blocks [where cap = None and mi = None, unfolded dy_par(4)]
  have 5: "infer_cpu (Suc (Suc n)) ex_dyadic ex_X None None
          = Some (Inr ([[Fin 1], [Fin (1/2)]], [[Fin 1], [Fin (1/2)]], [Fin (1/4)]))" for n
    by (rule two) (simp_all add: py_or_int_def)
  have 6: "infer_cpu (Suc (Suc n)) ex_dyadic ex_X None (Some 0)
          = Some (Inr ([[Fin 1], [Fin (1/2)]], [[Fin 1], [Fin (1/2)]], [Fin (1/4)]))" for n
    by (rule two) (simp_all add: py_or_int_def)
  have 7: "infer_cpu (Suc (Suc n)) (ex_dyadic \<lparr> max_iter := Some 1 \<rparr>) ex_X None (Some 5)
          = Some (Inr ([[Fin 1], [Fin (1/2)]], [[Fin 1], [Fin (1/2)]], [Fin (1/4)]))" for n
    by (rule dy_two_blocks [where cap = "Some 5"]) (simp_all add: py_or_int_def)
  have 8: "infer_cpu 1 ex_dyadic ex_X None None = None"
    by (rule dy_one_block_short [where cap = None and mi = None, unfolded dy_par(4)])
      (simp_all add: py_or_int_def)
  have 9: "infer_cpu (Suc n) ex_dyadic ex_X None (Some 1)
          = Some (Inr ([[Fin 1], [Fin 0]], [[Fin 1], [Fin (1/2)]], [Fin (3/8)]))" for n
    by (rule dy_cap_one [where mi = None, unfolded dy_par(4)]) (simp add: py_or_int_def)
  have 10: "infer_cpu (Suc n) (ex_dyadic \<lparr> max_iter := Some 1 \<rparr>) ex_X None None
          = Some (Inr ([[Fin 1], [Fin 0]], [[Fin 1], [Fin (1/2)]], [Fin (3/8)]))" for n
    by (rule dy_cap_one) (simp add: py_or_int_def)
  have 11: "infer_cpu n (ex_dyadic \<lparr> max_iter := Some 0 \<rparr>) ex_X None None
          = Some (Inr ([[Fin 0], [Fin 0]], [[Fin 0], [Fin 0]], [Fin (3/4)]))" for n
    by (rule dy_cap_zero) (simp add: py_or_int_def)
  note m1 = dy_mse1 [of None, unfolded dy_par(4)] and m2 = dy_mse2 [of None, unfolded dy_par(4)]
  show ?thesis
    using 1 2 3 4 m1 m2 8 5 9 10 7 11 6 nocap_forever nocap_forever_arg
    by (intro conjI allI) blast+
qed

theorem outer_loop_repeats_witness:
  "outer_loop 2 ex_dyadic ex_X [[Fin 1, Fin (1/2)]] [[Fin 0, Fin 0], [Fin 0, Fin 0]]
        (Fin (1/64)) None (Fin (65/64)) 0
        \<lparr> inf_u = [[Fin 0, Fin 0]], inf_s = [[Fin 0, Fin 0]], inf_thresh = [Fin (3/4)] \<rparr>
     = Some (Inr \<lparr> inf_u = [[Fin 1, Fin (1/2)]], inf_s = [[Fin 1, Fin (1/2)]],
                   inf_thresh = [Fin (1/4)] \<rparr>)
   \<and> (\<exists>j\<le>2. inner_loop ex_dyadic [[Fin 1, Fin (1/2)]] [[Fin 0, Fin 0], [Fin 0, Fin 0]]
               (concat (replicate j [0..<niter ex_dyadic]))
               \<lparr> inf_u = [[Fin 0, Fin 0]], inf_s = [[Fin 0, Fin 0]], inf_thresh = [Fin (3/4)] \<rparr>
             = Inr \<lparr> inf_u = [[Fin 1, Fin (1/2)]], inf_s = [[Fin 1, Fin (1/2)]],
                     inf_thresh = [Fin (1/4)] \<rparr>
           \<and> 0 < j
           \<and> \<not> fgt (mse ex_dyadic ex_X \<lparr> inf_u = [[Fin 1, Fin (1/2)]], inf_s = [[Fin 1, Fin (1/2)]],
                     inf_thresh = [Fin (1/4)] \<rparr>) (Fin (1/64)))
   \<and> inner_loop ex_dyadic [[Fin 1, Fin (1/2)]] [[Fin 0, Fin 0], [Fin 0, Fin 0]] [0, 0]
        \<lparr> inf_u = [[Fin 0, Fin 0]], inf_s = [[Fin 0, Fin 0]], inf_thresh = [Fin (3/4)] \<rparr>
     = Inr \<lparr> inf_u = [[Fin 1, Fin (1/2)]], inf_s = [[Fin 1, Fin (1/2)]], inf_thresh = [Fin (1/4)] \<rparr>
   \<and> (\<exists>r. \<forall>n\<ge>nat (1 - 0).
         outer_loop n ex_dyadic ex_X [[Fin 1, Fin (1/2)]] [[Fin 0, Fin 0], [Fin 0, Fin 0]]
           (Fin (1/64)) (Some 1) (Fin (65/64)) 0
           \<lparr> inf_u = [[Fin 0, Fin 0]], inf_s = [[Fin 0, Fin 0]], inf_thresh = [Fin (3/4)] \<rparr> = Some r)
   \<and> outer_loop 1 ex_dyadic ex_X [[Fin 1, Fin (1/2)]] [[Fin 0, Fin 0], [Fin 0, Fin 0]]
        (Fin (1/64)) (Some 1) (Fin (65/64)) 0
        \<lparr> inf_u = [[Fin 0, Fin 0]], inf_s = [[Fin 0, Fin 0]], inf_thresh = [Fin (3/4)] \<rparr>
     = Some (Inr \<lparr> inf_u = [[Fin 1, Fin (1/2)]], inf_s = [[Fin 1, Fin 0]],
                   inf_thresh = [Fin (3/8)] \<rparr>)"
proof -
  let ?b = "[[Fin 1, Fin (1/2)]]" and ?c = "[[Fin 0, Fin 0], [Fin 0, Fin 0]]"
  let ?st0 = "\<lparr> inf_u = [[Fin 0, Fin 0]], inf_s = [[Fin 0, Fin 0]], inf_thresh = [Fin (3/4)] \<rparr>"
  let ?st1 = "\<lparr> inf_u = [[Fin 1, Fin (1/2)]], inf_s = [[Fin 1, Fin 0]], inf_thresh = [Fin (3/8)] \<rparr>"
  let ?st2 = "\<lparr> inf_u = [[Fin 1, Fin (1/2)]], inf_s = [[Fin 1, Fin (1/2)]], inf_thresh = [Fin (1/4)] \<rparr>"
  note b1 = dy_block1 [of None, unfolded dy_par(4)] and b2 = dy_block2 [of None, unfolded dy_par(4)]
    and m1 = dy_mse1 [of None, unfolded dy_par(4)] and m2 = dy_mse2 [of None, unfolded dy_par(4)]
  have run2: "outer_loop 2 ex_dyadic ex_X ?b ?c (Fin (1/64)) None (Fin (65/64)) 0 ?st0
      = Some (Inr ?st2)"
    by (simp add: numeral_2_eq_2 continue_cond_def fgt_def b1 b2 m1 m2)
  have run1: "outer_loop 1 ex_dyadic ex_X ?b ?c (Fin (1/64)) (Some 1) (Fin (65/64)) 0 ?st0
      = Some (Inr ?st1)"
    by (simp add: continue_cond_def fgt_def b1 m1)
  have il: "inner_loop ex_dyadic ?b ?c [0, 0] ?st0 = Inr ?st2"
    by (simp add: dy_defs Let_def)
  note inst = outer_loop_repeats [of "Fin (1/64)" _ "Fin (65/64)" 0 _ ex_dyadic ex_X ?b ?c ?st0]
  from inst [of None 2] run2
  obtain j where j: "j \<le> 2" "inner_loop ex_dyadic ?b ?c (concat (replicate j [0..<niter ex_dyadic])) ?st0
        = Inr ?st2"
      "if j = 0 then \<not> continue_cond (Fin (1/64)) None (Fin (65/64)) 0
       else continue_cond (Fin (1/64)) None (Fin (65/64)) 0
         \<and> \<not> continue_cond (Fin (1/64)) None (mse ex_dyadic ex_X ?st2) (0 + int j)
         \<and> (\<forall>m. None = Some m \<longrightarrow> 0 + int j \<le> m)"
    by blast
  have c0: "continue_cond (Fin (1/64)) None (Fin (65/64)) 0"
    by (simp add: continue_cond_def fgt_def)
  have jpos: "0 < j" using j(3) c0 by (cases "j = 0") simp_all
  then have "\<not> fgt (mse ex_dyadic ex_X ?st2) (Fin (1/64))"
    using j(3) by (simp add: continue_cond_def)
  with j(1,2) jpos have a: "\<exists>j\<le>2. inner_loop ex_dyadic ?b ?c (concat (replicate j [0..<niter ex_dyadic])) ?st0
        = Inr ?st2 \<and> 0 < j \<and> \<not> fgt (mse ex_dyadic ex_X ?st2) (Fin (1/64))"
    by blast
  from inst [of "Some 1" 0]
  have c: "\<exists>r. \<forall>n\<ge>nat (1 - 0). outer_loop n ex_dyadic ex_X ?b ?c (Fin (1/64)) (Some 1) (Fin (65/64)) 0 ?st0
        = Some r"
    by blast
  show ?thesis
    using run2 a il c run1 by blast
qed

subsection \<open>Checkpoints\<close>

text \<open>
  C9 as stated (every failure of the save attempt, an unimplemented parameter-list hook
  included, is caught and logged, and the trial loop goes on) fails. An \<open>LCALearner\<close>
  with a parameter file runs two trials: at the second, \<open>save\<close> calls
  \<open>get_param_list\<close>, and its \<open>NotImplementedError\<close> ends \<open>run\<close>.
\<close>

theorem run_save_counterexample:
  "paramfile ex_file = Some ''dict.pickle''
   \<and> run no_gpu 1 ex_file ex_stims 2 None None True = Some (Inl Not_implemented)"
proof -
  define self1 where "self1 = store_statistics ex_file [[Fin 0], [Fin 0]]
      (snd (learn ex_file ex_X [[Fin 0], [Fin 0]] True)) (Some 1) True"
  have pf: "paramfile ex_file = Some ''dict.pickle''"
    by (simp add: ex_file_def)
  have i1: "infer no_gpu 1 self1 (rand_stim ex_stims 1 1) None None
     = Some (Inr ([[Fin 0], [Fin 0]], [[Fin (5991/1000000)], [Fin (5991/2000000)]],
                  [Fin (1083/1600)]))"
    unfolding self1_def by (simp only: ex_stims_simps ex_file_infer1)
  have ck: "(1 mod 1000 = 0 \<or> 1 + 1 = (2::nat)) \<and> (1::nat) \<noteq> 0" by simp
  have "paramfile (store_statistics (fst (learn self1 (rand_stim ex_stims 1 1) [[Fin 0], [Fin 0]] True))
      [[Fin 0], [Fin 0]] (snd (learn self1 (rand_stim ex_stims 1 1) [[Fin 0], [Fin 0]] True))
      (Some 1) True) = Some ''dict.pickle''"
    by (simp add: store_statistics_frame learn_frame self1_def pf)
  from checkpoint_file [OF ck this]
  have t1: "run_trial no_gpu 1 ex_stims 2 1 None True 1 (self1, [Trial 0]) = Some (Inl Not_implemented)"
    by (subst run_trial_unfold [OF i1]) simp
  have "run no_gpu 1 ex_file ex_stims 2 None None True
      = run_loop no_gpu 1 ex_stims 2 1 None True [0, 1] (ex_file, [])"
    by (simp add: run_def ex_stims_simps upt_rec)
  also have "\<dots> = Some (Inl Not_implemented)"
    by (simp only: run_loop.simps ex_file_trial0 t1 [unfolded self1_def] option.case sum.case)
  finally show ?thesis using pf by simp
qed

text \<open>
  C9, amended. At a trial at which a save is attempted and whose inference returns:
  without a parameter file the attempt raises the \<open>TypeError\<close> of the message it
  prints first, which is caught and logged, and the loop goes on with the next trial;
  with a parameter file \<open>save\<close> reaches \<open>get_param_list\<close>, whose
  \<open>NotImplementedError\<close> is not caught and ends \<open>run\<close>. No \<open>ValueError\<close> and no
  \<open>TypeError\<close> of the attempt leaves the loop.
\<close>

theorem save_failure_handling:
  assumes "(trial mod 1000 = 0 \<or> trial + 1 = ntrials) \<and> trial \<noteq> 0"
    and "infer infer_gpu fuel self (rand_stim stims trial bs) None None = Some (Inr (acts, um, th))"
  shows "(paramfile self = None \<longrightarrow>
            (\<exists>self' lg'. run_trial infer_gpu fuel stims ntrials bs rd nrm trial (self, lg)
                 = Some (Inr (self', lg'))
               \<and> last lg' = Failed Concat_None
               \<and> run_loop infer_gpu fuel stims ntrials bs rd nrm (trial # trials) (self, lg)
                 = run_loop infer_gpu fuel stims ntrials bs rd nrm trials (self', lg')))
    \<and> (\<forall>f. paramfile self = Some f \<longrightarrow>
            run_loop infer_gpu fuel stims ntrials bs rd nrm (trial # trials) (self, lg)
              = Some (Inl Not_implemented))
    \<and> (\<forall>e. checkpoint self trial ntrials = Inl e \<longrightarrow>
            class_of e \<noteq> ValueError \<and> class_of e \<noteq> TypeError)"
proof -
  define self2 where "self2 = store_statistics (fst (learn self (rand_stim stims trial bs) acts nrm))
      acts (snd (learn self (rand_stim stims trial bs) acts nrm)) (Some bs) True"
  have pf: "paramfile self2 = paramfile self"
    by (simp add: self2_def store_statistics_frame learn_frame)
  note rt = run_trial_unfold [OF assms(2), where ntrials = ntrials and rd = rd and nrm = nrm and lg = lg,
      folded self2_def]
  have 1: "\<exists>self' lg'. run_trial infer_gpu fuel stims ntrials bs rd nrm trial (self, lg)
                 = Some (Inr (self', lg'))
               \<and> last lg' = Failed Concat_None
               \<and> run_loop infer_gpu fuel stims ntrials bs rd nrm (trial # trials) (self, lg)
                 = run_loop infer_gpu fuel stims ntrials bs rd nrm trials (self', lg')"
    if "paramfile self = None"
    using that pf by (simp add: rt checkpoint_no_file [OF assms(1)])
  have 2: "run_loop infer_gpu fuel stims ntrials bs rd nrm (trial # trials) (self, lg)
              = Some (Inl Not_implemented)" if "paramfile self = Some f" for f
    using that pf by (simp add: rt checkpoint_file [OF assms(1)])
  show ?thesis
    using 1 2 checkpoint_raises by blast
qed

theorem save_failure_handling_witness:
  "paramfile ex_lca2 = None
   \<and> (\<exists>self' lg'. run_trial no_gpu 1 ex_stims 2 1 None True 1 (ex_lca2, [])
                 = Some (Inr (self', lg'))
               \<and> last lg' = Failed Concat_None
               \<and> run_loop no_gpu 1 ex_stims 2 1 None True [1] (ex_lca2, [])
                 = run_loop no_gpu 1 ex_stims 2 1 None True [] (self', lg'))
   \<and> paramfile ex_file = Some ''dict.pickle''
   \<and> run_loop no_gpu 1 ex_stims 2 1 None True [1] (ex_file, []) = Some (Inl Not_implemented)"
proof -
  have ck: "(1 mod 1000 = 0 \<or> 1 + 1 = (2::nat)) \<and> (1::nat) \<noteq> 0" by simp
  have i1: "infer no_gpu 1 ex_lca2 (rand_stim ex_stims 1 1) None None
     = Some (Inr ([[Fin 0], [Fin 0]], [[Fin (5991/1000000)], [Fin (5991/2000000)]],
                  [Fin (1083/1600)]))"
    by (simp only: ex_stims_simps ex_lca2_infer)
  have i2: "infer no_gpu 1 ex_file (rand_stim ex_stims 1 1) None None
     = Some (Inr ([[Fin 0], [Fin 0]], [[Fin (5991/1000000)], [Fin (5991/2000000)]],
                  [Fin (1083/1600)]))"
    by (simp only: ex_stims_simps ex_file_infer)
  have p1: "paramfile ex_lca2 = None"
    by (simp add: ex_lca2_def ex_lca_defs)
  have p2: "paramfile ex_file = Some ''dict.pickle''"
    by (simp add: ex_file_def)
  from save_failure_handling [OF ck i1, where rd = None and nrm = True and lg = "[]"
      and trials = "[]"] p1
  have a: "\<exists>self' lg'. run_trial no_gpu 1 ex_stims 2 1 None True 1 (ex_lca2, [])
                 = Some (Inr (self', lg'))
               \<and> last lg' = Failed Concat_None
               \<and> run_loop no_gpu 1 ex_stims 2 1 None True [1] (ex_lca2, [])
                 = run_loop no_gpu 1 ex_stims 2 1 None True [] (self', lg')"
    by blast
  from save_failure_handling [OF ck i2, where rd = None and nrm = True and lg = "[]"
      and trials = "[]"] p2
  have b: "run_loop no_gpu 1 ex_stims 2 1 None True [1] (ex_file, []) = Some (Inl Not_implemented)"
    by blast
  show ?thesis using p1 a p2 b by blast
qed

subsection \<open>\<open>LCALearner.sort_dict\<close>\<close>

text \<open>
  C10. \<open>LCALearner.sort_dict\<close> changes nothing of the learner but the dictionary,
  whose rows it permutes by the usage of the units on the batch: \<open>L0acts\<close>,
  \<open>L1acts\<close>, \<open>L2acts\<close>, \<open>meanacts\<close> and \<open>corrmatrix_ave\<close> are as before, so that they
  are those of the rows in their old order. The inference on the batch is assumed to
  return, with one row of coefficients for each unit.
\<close>

theorem sort_dict_frame:
  assumes "infer infer_gpu fuel self
      (if allstims then mT (stim_data stims)
       else rand_stim stims 0 (py_or_nat batch_size_arg (10 * batch_size self))) None None
      = Some (Inr (acts, um, th))"
    and "length acts = length (Q self)"
  shows "\<exists>self' ms. lca_sort_dict infer_gpu fuel self stims batch_size_arg allstims
        = Some (Inr (self', ms))
    \<and> self' = self\<lparr>Q := map (\<lambda>i. Q self ! i) (argsort (mean_axis1 (map (map ne0) acts)))\<rparr>
    \<and> L0acts self' = L0acts self \<and> L1acts self' = L1acts self \<and> L2acts self' = L2acts self
    \<and> meanacts self' = meanacts self \<and> corrmatrix_ave self' = corrmatrix_ave self"
proof -
  define means where "means = mean_axis1 (map (map ne0) acts)"
  have len: "length means = length (Q self)"
    using assms(2) by (simp add: means_def mean_axis1_def)
  have idx: "list_all (\<lambda>i. i < length (Q self)) (argsort means)"
    "list_all (\<lambda>i. i < length means) (argsort means)"
    using len by (simp_all add: list_all_iff set_argsort)
  show ?thesis
    using assms(1) idx
    by (simp add: lca_sort_dict_def Let_def means_def [symmetric] bind_err_def take_idx_def)
qed

theorem sort_dict_frame_witness:
  "infer no_gpu 1 ex_sorting (mT (stim_data ex_stims)) None None
     = Some (Inr ([[Fin 1], [Fin 0]], [[Fin 1], [Fin 0]], [Fin (19/40)]))
   \<and> argsort (mean_axis1 (map (map ne0) [[Fin 1], [Fin 0]])) = [1, 0]
   \<and> Q ex_sorting = [[Fin 1, Fin 0], [Fin 0, Fin 1]]
   \<and> (\<exists>self' ms. lca_sort_dict no_gpu 1 ex_sorting ex_stims None True = Some (Inr (self', ms))
        \<and> Q self' = [[Fin 0, Fin 1], [Fin 1, Fin 0]]
        \<and> L0acts self' = [Fin (1/2), Fin (1/4)] \<and> L0acts ex_sorting = [Fin (1/2), Fin (1/4)]
        \<and> corrmatrix_ave self' = corrmatrix_ave ex_sorting)"
proof -
  have h1: "infer no_gpu 1 ex_sorting
      (if True then mT (stim_data ex_stims)
       else rand_stim ex_stims 0 (py_or_nat None (10 * batch_size ex_sorting))) None None
     = Some (Inr ([[Fin 1], [Fin 0]], [[Fin 1], [Fin 0]], [Fin (19/40)]))"
    by (simp add: infer_defs ex_sorting_def ex_stims_def ex_lca_defs lca_defs array_defs
        Let_def upt_rec)
  have h2: "length [[Fin 1], [Fin 0]] = length (Q ex_sorting)"
    by (simp add: ex_sorting_def ex_lca_defs)
  have e1: "argsort (mean_axis1 (map (map ne0) [[Fin 1], [Fin 0]])) = [1, 0]"
    by (simp add: argsort_def mean_axis1_def mean_v_def ne0_def sorts_before_def upt_rec)
  have e2: "Q ex_sorting = [[Fin 1, Fin 0], [Fin 0, Fin 1]]"
    and e3: "L0acts ex_sorting = [Fin (1/2), Fin (1/4)]"
    by (simp_all add: ex_sorting_def ex_lca_defs)
  from sort_dict_frame [OF h1 h2] h1 e1 e2 e3
  show ?thesis by auto
qed

end
